theory Spec2Isabelle
  imports Complex_Main
begin

section \<open>Canvas objects and their serialised form\<close>

text \<open>
  The hook \<^verbatim>\<open>useWhiteboard\<close> keeps the document in a Fabric canvas: an ordered list
  of objects, bottom first, and a background colour. The hook is written against
  Fabric 7 (promise-returning \<^verbatim>\<open>clone\<close> and \<^verbatim>\<open>loadFromJSON\<close>, \<^verbatim>\<open>scenePoint\<close>, its own
  comments), and the model follows that version's contracts.

  Of a Fabric object the hook reads and writes the custom properties \<^verbatim>\<open>id\<close>,
  \<^verbatim>\<open>remote\<close> and \<^verbatim>\<open>isRipple\<close>, the composite operation, the caching and interaction
  flags, the class and the position; everything else (geometry, style, the members of
  a group) is the opaque \<open>payload\<close>. An absent \<^verbatim>\<open>id\<close> is \<open>None\<close>. \<open>otype\<close> is the name of
  the object's class (\<^verbatim>\<open>Rect\<close>, \<^verbatim>\<open>IText\<close>, \<^verbatim>\<open>ActiveSelection\<close>, ...).
\<close>

record cobj =
  oid :: "string option"
  otype :: string
  oleft :: real
  otop :: real
  payload :: string
  globalCompositeOperation :: string
  objectCaching :: bool
  remote :: bool
  isRipple :: bool
  selectable :: bool
  evented :: bool
  isEditing :: bool

text \<open>
  \<^verbatim>\<open>obj.type\<close> is a getter: the class name in lower case, so \<^verbatim>\<open>rect\<close>, \<^verbatim>\<open>itext\<close>,
  \<^verbatim>\<open>activeselection\<close>.
\<close>

definition lowerOf :: "(char \<times> char) list" where
  "lowerOf = zip ''ABCDEFGHIJKLMNOPQRSTUVWXYZ'' ''abcdefghijklmnopqrstuvwxyz''"

definition toLowerCase :: "string \<Rightarrow> string" where
  "toLowerCase str = map (\<lambda>c. case map_of lowerOf c of None \<Rightarrow> c | Some l \<Rightarrow> l) str"

definition objType :: "cobj \<Rightarrow> string" where
  "objType obj = toLowerCase (otype obj)"

text \<open>
  The serialised form of an object: the standard properties, and the custom
  properties \<^verbatim>\<open>id\<close> and \<^verbatim>\<open>objectCaching\<close> where the serialiser was asked for them and
  honours the request.
\<close>

record sobj =
  s_type :: string
  s_left :: real
  s_top :: real
  s_payload :: string
  s_globalCompositeOperation :: string
  s_id :: "string option"
  s_objectCaching :: "bool option"

text \<open>
  \<^verbatim>\<open>obj.toObject(props)\<close> includes the custom properties named in \<^verbatim>\<open>props\<close>; it is
  what \<^verbatim>\<open>obj.clone(props)\<close> serialises with.
\<close>

definition toObject :: "string list \<Rightarrow> cobj \<Rightarrow> sobj" where
  "toObject props obj =
     \<lparr> s_type = otype obj, s_left = oleft obj, s_top = otop obj, s_payload = payload obj,
       s_globalCompositeOperation = globalCompositeOperation obj,
       s_id = (if ''id'' \<in> set props then oid obj else None),
       s_objectCaching = (if ''objectCaching'' \<in> set props then Some (objectCaching obj) else None) \<rparr>"

text \<open>
  \<^verbatim>\<open>obj.toJSON(props)\<close>: in Fabric 7 \<^verbatim>\<open>toJSON\<close> takes no argument and is
  \<^verbatim>\<open>toObject()\<close>, so the list the hook passes is ignored and no custom property is
  written.
\<close>

definition objToJSON :: "string list \<Rightarrow> cobj \<Rightarrow> sobj" where
  "objToJSON props obj = toObject [] obj"

text \<open>
  Deserialising one object (\<^verbatim>\<open>fromObject\<close>, behind \<^verbatim>\<open>loadFromJSON\<close> and \<^verbatim>\<open>clone\<close>):
  properties the serialised form lacks take Fabric's defaults (cached, selectable,
  evented); \<^verbatim>\<open>remote\<close> and \<^verbatim>\<open>isRipple\<close> are never serialised.
\<close>

definition fromObject :: "sobj \<Rightarrow> cobj" where
  "fromObject d =
     \<lparr> oid = s_id d, otype = s_type d, oleft = s_left d, otop = s_top d, payload = s_payload d,
       globalCompositeOperation = s_globalCompositeOperation d,
       objectCaching = (case s_objectCaching d of None \<Rightarrow> True | Some b \<Rightarrow> b),
       remote = False, isRipple = False, selectable = True, evented = True,
       isEditing = False \<rparr>"

definition clone :: "string list \<Rightarrow> cobj \<Rightarrow> cobj" where
  "clone props obj = fromObject (toObject props obj)"

text \<open>The property list the hook passes with almost every serialisation.\<close>

definition histProps :: "string list" where
  "histProps = [''id'', ''globalCompositeOperation'', ''objectCaching'']"

text \<open>JavaScript truthiness of \<^verbatim>\<open>obj.id\<close>: defined and not the empty string.\<close>

definition truthy_id :: "cobj \<Rightarrow> bool" where
  "truthy_id obj = (case oid obj of None \<Rightarrow> False | Some i \<Rightarrow> i \<noteq> [])"

text \<open>
  The serialised canvas: the background colour (the empty string when the canvas has
  none, in which case the key is left out) and the objects. \<^verbatim>\<open>JSON.stringify\<close> of it is
  the snapshot the history compares with \<^verbatim>\<open>===\<close>; the model keeps the structured
  value, on which equality is the textual identity of the strings.
\<close>

record snapshot =
  s_background :: string
  s_objects :: "sobj list"

section \<open>Wire messages\<close>

text \<open>
  The relay's \<^verbatim>\<open>interface CanvasEvent { room: string; data: any }\<close> is a record with a
  \<open>room\<close> and anything else; the client's events extend it with a type, an id and the
  serialised object.
\<close>

record CanvasEvent =
  room :: string

record canvas_event = CanvasEvent +
  etype :: string
  eid :: "string option"
  edata :: "sobj option"

text \<open>What a client emits on its socket.\<close>

datatype client_msg =
    JoinRoom string
  | CanvasEventEmit canvas_event
  | SyncState string snapshot string

definition removedEvent :: "string \<Rightarrow> string option \<Rightarrow> client_msg" where
  "removedEvent r i =
     CanvasEventEmit \<lparr> room = r, etype = ''object:removed'', eid = i, edata = None \<rparr>"

definition addedEvent :: "string \<Rightarrow> string option \<Rightarrow> sobj \<Rightarrow> client_msg" where
  "addedEvent r i d =
     CanvasEventEmit \<lparr> room = r, etype = ''object:added'', eid = i, edata = Some d \<rparr>"

definition clearEvent :: "string \<Rightarrow> client_msg" where
  "clearEvent r = CanvasEventEmit \<lparr> room = r, etype = ''clear'', eid = None, edata = None \<rparr>"

section \<open>Client state\<close>

text \<open>
  The clipboard holds a cloned object; for a multi-selection also the clones of its
  members, which the wrapper carries along.
\<close>

record clip =
  c_obj :: cobj
  c_members :: "cobj list"

text \<open>
  The refs and props of one mounted hook whose canvas has been created: the canvas
  objects and background, \<^verbatim>\<open>historyRef\<close>, \<^verbatim>\<open>isRestoringRef\<close>, \<^verbatim>\<open>clipboardRef\<close>,
  \<^verbatim>\<open>activeToolRef\<close>, \<^verbatim>\<open>isEraserDraggingRef\<close>, the props \<^verbatim>\<open>isReadOnly\<close> and \<^verbatim>\<open>roomId\<close>, the
  canvas size, and the messages emitted on the socket so far, oldest first. The top
  of a history stack is the last element, as in the JavaScript arrays.
\<close>

record client =
  objects :: "cobj list"
  backgroundColor :: string
  undo :: "snapshot list"
  redo :: "snapshot list"
  isRestoring :: bool
  clipboard :: "clip option"
  activeTool :: string
  isEraserDragging :: bool
  isReadOnly :: bool
  roomId :: string
  width :: real
  height :: real
  emitted :: "client_msg list"

definition emit :: "client_msg \<Rightarrow> client \<Rightarrow> client" where
  "emit m s = s\<lparr> emitted := emitted s @ [m] \<rparr>"

text \<open>
  \<^verbatim>\<open>canvas.toJSON(props)\<close>: as for an object, Fabric 7's \<^verbatim>\<open>toJSON\<close> takes no argument,
  so the snapshot holds the background and the objects without custom properties.
\<close>

definition toJSON :: "string list \<Rightarrow> client \<Rightarrow> snapshot" where
  "toJSON props s =
     \<lparr> s_background = backgroundColor s, s_objects = map (objToJSON props) (objects s) \<rparr>"

subsection \<open>History\<close>

text \<open>
  \<^verbatim>\<open>saveHistory\<close> (lines 46-63): returns at once while restoring; returns at once when
  the snapshot equals the top of \<^verbatim>\<open>undo\<close> (reading past the end of an empty array gives
  \<^verbatim>\<open>undefined\<close>, which equals no string); otherwise pushes and clears \<^verbatim>\<open>redo\<close>.
\<close>

definition saveHistory :: "client \<Rightarrow> client" where
  "saveHistory s =
     (if isRestoring s then s
      else let json = toJSON histProps s in
        if undo s \<noteq> [] \<and> last (undo s) = json then s
        else s\<lparr> undo := undo s @ [json], redo := [] \<rparr>)"

text \<open>
  The canvas is created empty with the background \<^verbatim>\<open>transparent\<close>, and its snapshot
  starts the history (lines 87-114).
\<close>

definition initClient :: "string \<Rightarrow> bool \<Rightarrow> string \<Rightarrow> real \<Rightarrow> real \<Rightarrow> client" where
  "initClient tool ro r w h =
     (let fabricCanvas =
            \<lparr> objects = [], backgroundColor = ''transparent'', undo = [], redo = [],
              isRestoring = False, clipboard = None, activeTool = tool,
              isEraserDragging = False, isReadOnly = ro, roomId = r, width = w, height = h,
              emitted = [] \<rparr>;
          initialJson = toJSON [''id'', ''globalCompositeOperation'', ''objectCaching'',
                                ''remote''] fabricCanvas
      in fabricCanvas\<lparr> undo := [initialJson], redo := [] \<rparr>)"

text \<open>The snapshot of the canvas as created: the sentinel of every fresh history.\<close>

definition initialJson :: snapshot where
  "initialJson = \<lparr> s_background = ''transparent'', s_objects = [] \<rparr>"

subsection \<open>Canvas listeners and primitives\<close>

text \<open>
  The \<^verbatim>\<open>object:added\<close> listener (lines 129-138) runs with the added object, which is the
  last of the list: it records history unless the object is remote, then adjusts the
  object's flags for the role and the tool.
\<close>

definition addedFlags :: "client \<Rightarrow> cobj \<Rightarrow> cobj" where
  "addedFlags s obj =
     (if isReadOnly s \<or> activeTool s = ''eraser''
      then obj\<lparr> selectable := False, evented := \<not> isReadOnly s, objectCaching := False \<rparr>
      else if activeTool s = ''zoom''
      then obj\<lparr> selectable := False, evented := False \<rparr>
      else obj)"

definition canvas_add :: "cobj \<Rightarrow> client \<Rightarrow> client" where
  "canvas_add obj s =
     (let s1 = s\<lparr> objects := objects s @ [obj] \<rparr>;
          s2 = (if \<not> remote obj then saveHistory s1 else s1)
      in s2\<lparr> objects := objects s @ [addedFlags s obj] \<rparr>)"

text \<open>
  The \<^verbatim>\<open>object:removed\<close> listener (lines 139-148) runs with the removed object after
  it has left the list: it records history unless the object is remote and, while the
  eraser is the active tool, broadcasts the removal of an object that has an id and is
  not remote.
\<close>

definition on_object_removed :: "cobj \<Rightarrow> client \<Rightarrow> client" where
  "on_object_removed tgt s =
     (let s1 = (if \<not> remote tgt then saveHistory s else s)
      in if activeTool s1 = ''eraser'' \<and> truthy_id tgt \<and> \<not> remote tgt
         then emit (removedEvent (roomId s1) (oid tgt)) s1
         else s1)"

text \<open>
  \<^verbatim>\<open>canvas.remove(obj)\<close> for the object at position \<open>i\<close> of the list: Fabric splices it
  out and fires \<^verbatim>\<open>object:removed\<close>; an object that is not on the canvas is left alone.
\<close>

definition canvas_remove_at :: "nat \<Rightarrow> client \<Rightarrow> client" where
  "canvas_remove_at i s =
     (if i < length (objects s)
      then on_object_removed (objects s ! i)
             (s\<lparr> objects := take i (objects s) @ drop (Suc i) (objects s) \<rparr>)
      else s)"

text \<open>
  \<^verbatim>\<open>canvas.remove(...toRemove)\<close> where \<^verbatim>\<open>toRemove\<close> are the objects of a copy of the list
  that satisfy \<open>P\<close>, bottom first. The second argument is the part of the copy still to
  visit and \<open>i\<close> the position its head has in the live list.
\<close>

fun remove_each :: "(cobj \<Rightarrow> bool) \<Rightarrow> cobj list \<Rightarrow> nat \<Rightarrow> client \<Rightarrow> client" where
  "remove_each P [] i s = s"
| "remove_each P (obj # rest) i s =
     (if P obj then remove_each P rest i (canvas_remove_at i s)
      else remove_each P rest (Suc i) s)"

text \<open>
  \<^verbatim>\<open>canvas.clear()\<close> removes every object through \<^verbatim>\<open>remove\<close> and then resets the
  background colour to the empty string.
\<close>

definition canvas_clear :: "client \<Rightarrow> client" where
  "canvas_clear s = (remove_each (\<lambda>_. True) (objects s) 0 s)\<lparr> backgroundColor := [] \<rparr>"

text \<open>
  \<^verbatim>\<open>canvas.loadFromJSON(json)\<close> replaces the content: it clears the canvas, adds the
  deserialised objects in order and sets the background the snapshot holds. Snapshots
  of the history were produced by \<^verbatim>\<open>toJSON\<close>, so deserialising them does not fail.
\<close>

definition loadFromJSON :: "snapshot \<Rightarrow> client \<Rightarrow> client" where
  "loadFromJSON json s =
     (foldl (\<lambda>t obj. canvas_add obj t) (canvas_clear s) (map fromObject (s_objects json)))
       \<lparr> backgroundColor := s_background json \<rparr>"

section \<open>Replication: the client's socket handlers\<close>

text \<open>
  The \<^verbatim>\<open>request-sync\<close> handler (lines 200-208): a client that is not read-only answers
  with its serialised canvas, addressed to the requester.
\<close>

definition on_request_sync :: "string \<Rightarrow> client \<Rightarrow> client" where
  "on_request_sync requesterId s =
     (if \<not> isReadOnly s
      then emit (SyncState (roomId s) (toJSON [] s) requesterId) s
      else s)"

text \<open>
  \<^verbatim>\<open>util.enlivenObjects([event.data], callback)\<close>: in Fabric 7 the second parameter is
  an options object \<^verbatim>\<open>{ reviver, signal }\<close> and the rebuilt objects are the value of the
  returned promise. A function passed there has neither property, the hook drops the
  promise, and so the callback is never run: the call leaves the client as it is.
\<close>

definition enlivenObjects ::
  "sobj option \<Rightarrow> (cobj list \<Rightarrow> client \<Rightarrow> client) \<Rightarrow> client \<Rightarrow> client" where
  "enlivenObjects d callback s = s"

text \<open>
  The \<^verbatim>\<open>canvas-event\<close> handler (lines 231-250). For an added object it hands
  \<^verbatim>\<open>enlivenObjects\<close> a callback that would give each rebuilt object the transmitted id
  and \<^verbatim>\<open>remote = true\<close> and add it; a removal deletes every object whose id is strictly
  equal to the event's; a clear empties the canvas.
\<close>

definition on_canvas_event :: "canvas_event \<Rightarrow> client \<Rightarrow> client" where
  "on_canvas_event event s =
     (if etype event = ''object:added''
      then enlivenObjects (edata event)
             (\<lambda>objs t. foldl (\<lambda>u obj. canvas_add (obj\<lparr> oid := eid event, remote := True \<rparr>) u)
                          t objs) s
      else if etype event = ''object:removed''
      then remove_each (\<lambda>obj. oid obj = eid event) (objects s) 0 s
      else if etype event = ''clear''
      then canvas_clear s
      else s)"

section \<open>The eraser\<close>

text \<open>
  An object may be erased when it has an id, is not a ripple and was not drawn with
  the \<^verbatim>\<open>destination-out\<close> composite operation.
\<close>

definition eligible :: "cobj \<Rightarrow> bool" where
  "eligible obj =
     (truthy_id obj \<and> \<not> isRipple obj \<and> globalCompositeOperation obj \<noteq> ''destination-out'')"

text \<open>A handler that throws leaves the state it had reached and the error.\<close>

datatype error = TypeError

type_synonym point = "real \<times> real"

text \<open>
  The loop of \<^verbatim>\<open>handleScrubberMove\<close> (lines 323-333) walks a copy of the object list
  from the top. The second argument is the part of the copy still to visit, top first;
  its head sits at position \<open>length below\<close> of the live list, because only objects above
  it have been removed. \<open>hit\<close> is \<^verbatim>\<open>containsPoint\<close> at the pointer.
\<close>

fun scrub :: "(cobj \<Rightarrow> bool) \<Rightarrow> cobj list \<Rightarrow> client \<Rightarrow> client" where
  "scrub hit [] s = s"
| "scrub hit (obj # below) s =
     scrub hit below
       (if eligible obj \<and> hit obj
        then canvas_remove_at (length below) (emit (removedEvent (roomId s) (oid obj)) s)
        else s)"

text \<open>
  \<^verbatim>\<open>handleScrubberMove\<close> (lines 312-336); \<open>buttons\<close> is \<^verbatim>\<open>e.buttons\<close>. Line 319 calls
  \<^verbatim>\<open>fabricCanvas.getPointer(e)\<close> with no test that the method exists. \<open>getPointer\<close> is
  what the call returns where the canvas has the method, and \<open>None\<close> where it has not,
  as in Fabric 7: the call then throws a \<^verbatim>\<open>TypeError\<close> and the handler ends before its
  loop. \<open>containsPoint\<close> is Fabric's hit test.
\<close>

definition handleScrubberMove ::
  "nat \<Rightarrow> point option \<Rightarrow> (point \<Rightarrow> cobj \<Rightarrow> bool) \<Rightarrow> client \<Rightarrow> error \<times> client + client" where
  "handleScrubberMove buttons getPointer containsPoint s =
     (if activeTool s = ''eraser'' then
        let s1 = (if buttons = 1 \<and> \<not> isEraserDragging s then s\<lparr> isEraserDragging := True \<rparr> else s);
            s2 = (if buttons = 0 \<and> isEraserDragging s1 then s1\<lparr> isEraserDragging := False \<rparr> else s1)
        in if isEraserDragging s2 then
             (case getPointer of
                None \<Rightarrow> Inl (TypeError, s2)
              | Some pointer \<Rightarrow> Inr (scrub (containsPoint pointer) (rev (objects s2)) s2))
           else Inr s2
      else Inr s)"

text \<open>
  The manual hit detection of the \<^verbatim>\<open>mouse:down\<close> handler (lines 291-296): the topmost
  object that contains the point, as a position of the list.
\<close>

fun topmost_hit :: "(cobj \<Rightarrow> bool) \<Rightarrow> cobj list \<Rightarrow> nat option" where
  "topmost_hit hit [] = None"
| "topmost_hit hit (obj # below) =
     (if hit obj then Some (length below) else topmost_hit hit below)"

text \<open>
  The \<^verbatim>\<open>mouse:down\<close> handler (lines 281-306). \<open>target\<close> is the position of Fabric's
  \<^verbatim>\<open>opt.target\<close>, if it found one; \<open>scenePoint\<close> is \<^verbatim>\<open>opt.scenePoint\<close>, which Fabric 7
  sets on pointer events, and \<open>getPointer\<close> the fallback behind \<^verbatim>\<open>||\<close>, as above.
\<close>

definition mouse_down ::
  "nat option \<Rightarrow> point option \<Rightarrow> point option \<Rightarrow> (point \<Rightarrow> cobj \<Rightarrow> bool) \<Rightarrow> client
     \<Rightarrow> error \<times> client + client" where
  "mouse_down target scenePoint getPointer containsPoint s =
     (if activeTool s = ''eraser'' then
        let s1 = s\<lparr> isEraserDragging := True \<rparr> in
        case (case scenePoint of Some p \<Rightarrow> Some p | None \<Rightarrow> getPointer) of
          None \<Rightarrow> Inl (TypeError, s1)
        | Some point \<Rightarrow>
            (case (case target of Some i \<Rightarrow> Some i
                   | None \<Rightarrow> topmost_hit (containsPoint point) (rev (objects s1))) of
               None \<Rightarrow> Inr s1
             | Some i \<Rightarrow>
                 if i < length (objects s1) \<and> eligible (objects s1 ! i)
                 then Inr (saveHistory
                        (canvas_remove_at i
                           (emit (removedEvent (roomId s1) (oid (objects s1 ! i))) s1)))
                 else Inr s1)
      else Inr s)"

section \<open>Undo and redo\<close>

text \<open>
  \<^verbatim>\<open>undo\<close> (lines 1380-1408) and \<^verbatim>\<open>redo\<close> (lines 1410-1435), up to the end of the
  restore. A snapshot is a non-empty JSON string, so the truthiness tests on the popped
  value succeed. The timer that clears \<^verbatim>\<open>isRestoringRef\<close> 50 ms later is the separate
  step \<open>restoreTimeout\<close>.
\<close>

definition undo_op :: "client \<Rightarrow> client" where
  "undo_op s =
     (if length (undo s) \<le> 1 then s
      else
        let s1 = s\<lparr> isRestoring := True \<rparr>;
            currentState = last (undo s1);
            s2 = s1\<lparr> undo := butlast (undo s1) \<rparr>;
            s3 = s2\<lparr> redo := redo s2 @ [currentState] \<rparr>;
            prevState = last (undo s3)
        in loadFromJSON prevState s3)"

definition redo_op :: "client \<Rightarrow> client" where
  "redo_op s =
     (if length (redo s) = 0 then s
      else
        let s1 = s\<lparr> isRestoring := True \<rparr>;
            nextState = last (redo s1);
            s2 = s1\<lparr> redo := butlast (redo s1) \<rparr>;
            s3 = s2\<lparr> undo := undo s2 @ [nextState] \<rparr>
        in loadFromJSON nextState s3)"

definition restoreTimeout :: "client \<Rightarrow> client" where
  "restoreTimeout s = s\<lparr> isRestoring := False \<rparr>"

datatype history_call = Undo | Redo | Timeout

fun history_step :: "history_call \<Rightarrow> client \<Rightarrow> client" where
  "history_step Undo s = undo_op s"
| "history_step Redo s = redo_op s"
| "history_step Timeout s = restoreTimeout s"

definition history_run :: "history_call list \<Rightarrow> client \<Rightarrow> client" where
  "history_run calls s = foldl (\<lambda>t c. history_step c t) s calls"

section \<open>Local editing operations\<close>

text \<open>
  Fabric's selection state is not part of the document; each operation receives what
  \<^verbatim>\<open>getActiveObject\<close> returns at the call: nothing, one canvas object (by position), or
  an \<^verbatim>\<open>ActiveSelection\<close> wrapper over several canvas objects.
\<close>

datatype active = NoActive | ActiveObject nat | ActiveSelection cobj "nat list"

fun getActiveObjects :: "active \<Rightarrow> nat list" where
  "getActiveObjects NoActive = []"
| "getActiveObjects (ActiveObject i) = [i]"
| "getActiveObjects (ActiveSelection w members) = members"

text \<open>\<^verbatim>\<open>active.clone(props)\<close> of the active object, if there is one.\<close>

fun cloneActive :: "active \<Rightarrow> cobj list \<Rightarrow> clip option" where
  "cloneActive NoActive objs = None"
| "cloneActive (ActiveObject i) objs =
     (if i < length objs then Some \<lparr> c_obj = clone histProps (objs ! i), c_members = [] \<rparr>
      else None)"
| "cloneActive (ActiveSelection w members) objs =
     Some \<lparr> c_obj = clone histProps w,
            c_members = map (\<lambda>i. clone histProps (objs ! i)) (filter (\<lambda>i. i < length objs) members) \<rparr>"

text \<open>\<^verbatim>\<open>(c.width || 400) / 2\<close> and the same for the height.\<close>

definition centerLeft :: "client \<Rightarrow> real" where
  "centerLeft s = (if width s = 0 then 400 else width s) / 2"

definition centerTop :: "client \<Rightarrow> real" where
  "centerTop s = (if height s = 0 then 400 else height s) / 2"

text \<open>An update of the object added last, through the reference the caller still holds.\<close>

definition set_last :: "(cobj \<Rightarrow> cobj) \<Rightarrow> client \<Rightarrow> client" where
  "set_last f s =
     (if objects s = [] then s
      else s\<lparr> objects := butlast (objects s) @ [f (last (objects s))] \<rparr>)"

text \<open>
  \<^verbatim>\<open>addShape\<close> (lines 1210-1280). \<open>shapeId\<close> is the value of \<^verbatim>\<open>Math.random()...\<close>,
  \<open>style\<close> the fill, stroke and dimensions. Fabric provides the constructors looked up.
\<close>

definition newShape :: "string \<Rightarrow> string \<Rightarrow> string \<Rightarrow> client \<Rightarrow> cobj option" where
  "newShape type shapeId style s =
     (let shape = \<lambda>t. Some \<lparr> oid = Some shapeId, otype = t, oleft = centerLeft s,
                           otop = centerTop s, payload = style,
                           globalCompositeOperation = ''source-over'', objectCaching = True,
                           remote = False, isRipple = False, selectable = True, evented = True,
                           isEditing = False \<rparr>
      in if type = ''square'' then shape ''Rect''
         else if type = ''circle'' then shape ''Circle''
         else if type = ''triangle'' then shape ''Triangle''
         else None)"

definition addShape :: "string \<Rightarrow> string \<Rightarrow> string \<Rightarrow> client \<Rightarrow> client" where
  "addShape type shapeId style s =
     (if isReadOnly s then s
      else case newShape type shapeId style s of
        None \<Rightarrow> s
      | Some shape \<Rightarrow>
          let s1 = canvas_add shape s;
              s2 = set_last (\<lambda>obj. obj\<lparr> selectable := True, evented := True \<rparr>) s1;
              s3 = emit (addedEvent (roomId s) (Some shapeId)
                     (objToJSON [''id'', ''stroke'', ''strokeWidth'', ''globalCompositeOperation'',
                                 ''objectCaching'']
                        ((addedFlags s shape)\<lparr> selectable := True, evented := True \<rparr>))) s2
          in saveHistory s3)"

text \<open>
  \<^verbatim>\<open>addText\<close> (lines 1282-1344): the new text is added and put into editing mode,
  which also makes it unselectable.
\<close>

definition addText :: "string \<Rightarrow> string \<Rightarrow> client \<Rightarrow> client" where
  "addText textId style s =
     (if isReadOnly s then s
      else
        let text = \<lparr> oid = Some textId, otype = ''IText'', oleft = centerLeft s,
                     otop = centerTop s, payload = style,
                     globalCompositeOperation = ''source-over'', objectCaching = True,
                     remote = False, isRipple = False, selectable = True, evented = True,
                     isEditing = False \<rparr>;
            s1 = canvas_add text s;
            s2 = set_last (\<lambda>obj. obj\<lparr> isEditing := True, selectable := False \<rparr>) s1;
            s3 = emit (addedEvent (roomId s) (Some textId)
                   (objToJSON [''id'']
                      ((addedFlags s text)\<lparr> isEditing := True, selectable := False \<rparr>))) s2
        in saveHistory s3)"

text \<open>
  The loop shared by \<^verbatim>\<open>deleteSelected\<close> and \<^verbatim>\<open>cut\<close>: for each active object, emit its
  removal if it has an id, then remove it. Removing position \<open>i\<close> moves the objects above
  it one down.
\<close>

fun remove_selected :: "nat list \<Rightarrow> client \<Rightarrow> client" where
  "remove_selected [] s = s"
| "remove_selected (i # rest) s =
     remove_selected (map (\<lambda>j. if i < j then j - 1 else j) rest)
       (canvas_remove_at i
          (if i < length (objects s) \<and> truthy_id (objects s ! i)
           then emit (removedEvent (roomId s) (oid (objects s ! i))) s
           else s))"

text \<open>\<^verbatim>\<open>deleteSelected\<close> (lines 1346-1378).\<close>

definition deleteSelected :: "active \<Rightarrow> client \<Rightarrow> client" where
  "deleteSelected act s =
     (if isReadOnly s then s
      else if length (getActiveObjects act) = 0 then s
      else if list_ex (\<lambda>i. i < length (objects s) \<and> objType (objects s ! i) = ''i-text''
                          \<and> isEditing (objects s ! i)) (getActiveObjects act)
      then s
      else saveHistory (remove_selected (getActiveObjects act) s))"

text \<open>\<^verbatim>\<open>copy\<close> (lines 1437-1452).\<close>

definition copy :: "active \<Rightarrow> client \<Rightarrow> client" where
  "copy act s =
     (case cloneActive act (objects s) of
        None \<Rightarrow> s
      | Some cloned \<Rightarrow> s\<lparr> clipboard := Some cloned \<rparr>)"

text \<open>
  The part \<^verbatim>\<open>paste\<close> and \<^verbatim>\<open>duplicate\<close> share: the clone is moved by \<open>d\<close>, made
  interactive and given a fresh id. Where \<^verbatim>\<open>clonedObj.type\<close> is the string
  \<^verbatim>\<open>activeSelection\<close> the members get fresh ids and are added one by one, otherwise the
  clone is added itself; one \<^verbatim>\<open>object:added\<close> with the clone's id and its serialisation
  after the add is emitted; history is recorded. \<open>rnd k\<close> is the value of the \<open>k\<close>-th
  call of \<^verbatim>\<open>Math.random()...\<close>.
\<close>

definition freshMembers :: "(nat \<Rightarrow> string) \<Rightarrow> cobj list \<Rightarrow> cobj list" where
  "freshMembers rnd ms =
     map (\<lambda>(k, m). m\<lparr> oid := Some (rnd (Suc k)), selectable := True, evented := True \<rparr>)
       (enumerate 0 ms)"

definition insertClone :: "real \<Rightarrow> (nat \<Rightarrow> string) \<Rightarrow> clip \<Rightarrow> client \<Rightarrow> client" where
  "insertClone d rnd cl s =
     (let clonedObj = (c_obj cl)\<lparr> oleft := oleft (c_obj cl) + d, otop := otop (c_obj cl) + d,
                                  evented := True, selectable := True, oid := Some (rnd 0) \<rparr>
      in if objType clonedObj = ''activeSelection'' then
           let s1 = foldl (\<lambda>t m. canvas_add m t) s (freshMembers rnd (c_members cl));
               s2 = emit (addedEvent (roomId s) (oid clonedObj) (objToJSON histProps clonedObj)) s1
           in saveHistory s2
         else
           let s1 = canvas_add clonedObj s;
               s2 = emit (addedEvent (roomId s) (oid clonedObj)
                      (objToJSON histProps (addedFlags s clonedObj))) s1
           in saveHistory s2)"

text \<open>
  \<^verbatim>\<open>paste\<close> (lines 1454-1500): the only test is that the clipboard is not empty.
\<close>

definition cloneClip :: "clip \<Rightarrow> clip" where
  "cloneClip cl =
     \<lparr> c_obj = clone histProps (c_obj cl), c_members = map (clone histProps) (c_members cl) \<rparr>"

definition paste :: "(nat \<Rightarrow> string) \<Rightarrow> client \<Rightarrow> client" where
  "paste rnd s =
     (case clipboard s of
        None \<Rightarrow> s
      | Some cl \<Rightarrow> insertClone 20 rnd (cloneClip cl) s)"

text \<open>\<^verbatim>\<open>cut\<close> (lines 1502-1529).\<close>

definition cut :: "active \<Rightarrow> client \<Rightarrow> client" where
  "cut act s =
     (if isReadOnly s then s
      else case cloneActive act (objects s) of
        None \<Rightarrow> s
      | Some cloned \<Rightarrow>
          saveHistory (remove_selected (getActiveObjects act) (s\<lparr> clipboard := Some cloned \<rparr>)))"

text \<open>\<^verbatim>\<open>duplicate\<close> (lines 1531-1577).\<close>

definition duplicate :: "active \<Rightarrow> (nat \<Rightarrow> string) \<Rightarrow> client \<Rightarrow> client" where
  "duplicate act rnd s =
     (if isReadOnly s then s
      else case cloneActive act (objects s) of
        None \<Rightarrow> s
      | Some cloned \<Rightarrow> insertClone 15 rnd cloned s)"

text \<open>\<^verbatim>\<open>resetWhiteboard\<close> (lines 1579-1600).\<close>

definition resetWhiteboard :: "client \<Rightarrow> client" where
  "resetWhiteboard s =
     (if isReadOnly s then s
      else
        let s1 = canvas_clear s;
            s2 = s1\<lparr> undo := [toJSON histProps s1], redo := [] \<rparr>;
            s3 = s2\<lparr> clipboard := None \<rparr>
        in emit (clearEvent (roomId s)) s3)"

text \<open>
  \<^verbatim>\<open>uploadImage\<close> (lines 1602-1970). Decoding is the media layer's work: \<open>decoded\<close> is
  the Fabric image it produced from the file (the first page of a PDF, the first frame
  of a video, the image itself, scaled to fit), or \<open>None\<close> when it failed. An audio
  file is shown as a group built on the spot.
\<close>

record upload_file =
  ftype :: string
  fname :: string

definition startsWith :: "string \<Rightarrow> string \<Rightarrow> bool" where
  "startsWith p str = (take (length p) str = p)"

definition placeObject :: "cobj \<Rightarrow> client \<Rightarrow> client" where
  "placeObject obj s =
     (let s1 = canvas_add obj s;
          s2 = emit (addedEvent (roomId s) (oid obj) (objToJSON histProps (addedFlags s obj))) s1
      in saveHistory s2)"

definition placeImage :: "cobj option \<Rightarrow> string \<Rightarrow> client \<Rightarrow> client" where
  "placeImage decoded newId s =
     (case decoded of
        None \<Rightarrow> s
      | Some img \<Rightarrow>
          placeObject (img\<lparr> oleft := centerLeft s, otop := centerTop s, oid := Some newId,
                           selectable := True, evented := True \<rparr>) s)"

definition uploadImage :: "upload_file \<Rightarrow> cobj option \<Rightarrow> string \<Rightarrow> client \<Rightarrow> client" where
  "uploadImage f decoded newId s =
     (if isReadOnly s then s
      else if ftype f = ''application/pdf'' then placeImage decoded newId s
      else if startsWith ''video/'' (ftype f) then placeImage decoded newId s
      else if startsWith ''audio/'' (ftype f) then
        placeObject \<lparr> oid = Some newId, otype = ''Group'', oleft = centerLeft s,
                      otop = centerTop s, payload = take 28 (fname f),
                      globalCompositeOperation = ''source-over'', objectCaching = True,
                      remote = False, isRipple = False, selectable = True, evented = True,
                      isEditing = False \<rparr> s
      else if startsWith ''image/'' (ftype f) then placeImage decoded newId s
      else s)"

text \<open>\<^verbatim>\<open>clearCanvas\<close> (lines 1972-1978).\<close>

definition clearCanvas :: "client \<Rightarrow> client" where
  "clearCanvas s =
     (if isReadOnly s then s
      else saveHistory (emit (clearEvent (roomId s)) (canvas_clear s)))"

section \<open>The relay\<close>

text \<open>
  The server keeps nothing but socket.io's rooms: for each room name the set of
  connections in it. A new connection is in the room named by its own id.
  \<^verbatim>\<open>io.to(r)\<close> addresses all members of \<open>r\<close>. \<^verbatim>\<open>socket.to(r)\<close> addresses the members of
  \<open>r\<close> except the room named by the socket's id: socket.io 4 leaves out every
  connection in that room, the socket itself and whoever else has joined a room of
  that name. Each handler returns the new rooms and the deliveries it makes, as pairs
  of a recipient and a message.
\<close>

record relay =
  rooms :: "string \<Rightarrow> string set"

datatype ('e, 'st) server_msg =
    RequestSync string
  | CanvasEventMsg 'e
  | LoadState 'st

definition relay_empty :: relay where
  "relay_empty = \<lparr> rooms = (\<lambda>_. {}) \<rparr>"

definition relay_connection :: "string \<Rightarrow> relay \<Rightarrow> relay" where
  "relay_connection sid R = R\<lparr> rooms := (rooms R)(sid := insert sid (rooms R sid)) \<rparr>"

definition relay_disconnect :: "string \<Rightarrow> relay \<Rightarrow> relay" where
  "relay_disconnect sid R = R\<lparr> rooms := (\<lambda>r. rooms R r - {sid}) \<rparr>"

definition relay_join_room ::
  "string \<Rightarrow> string \<Rightarrow> relay \<Rightarrow> relay \<times> (string \<times> ('e, 'st) server_msg) set" where
  "relay_join_room sid r R =
     (let R' = R\<lparr> rooms := (rooms R)(r := insert sid (rooms R r)) \<rparr>
      in (R', (\<lambda>m. (m, RequestSync sid)) ` (rooms R' r - rooms R' sid)))"

definition relay_canvas_event ::
  "string \<Rightarrow> 'a CanvasEvent_scheme \<Rightarrow> relay
     \<Rightarrow> relay \<times> (string \<times> ('a CanvasEvent_scheme, 'st) server_msg) set" where
  "relay_canvas_event sid event R =
     (R, (\<lambda>m. (m, CanvasEventMsg event)) ` (rooms R (room event) - rooms R sid))"

text \<open>The \<^verbatim>\<open>sync-state\<close> payload \<^verbatim>\<open>{ room, state, targetId }\<close>.\<close>

record 'st sync_state =
  sync_room :: string
  state :: 'st
  targetId :: string

definition relay_sync_state ::
  "string \<Rightarrow> 'st sync_state \<Rightarrow> relay \<Rightarrow> relay \<times> (string \<times> ('e, 'st) server_msg) set" where
  "relay_sync_state sid d R =
     (R, (\<lambda>m. (m, LoadState (state d))) ` rooms R (targetId d))"

section \<open>Switching tools\<close>

text \<open>
  The tool effect (lines 359-570) runs when the hook is rendered with a new
  \<^verbatim>\<open>activeTool\<close> or \<^verbatim>\<open>isReadOnly\<close>. Its branch that restyles the selected object applies
  only to an editor with the \<^verbatim>\<open>select\<close> or \<^verbatim>\<open>text\<close> tool; otherwise the refs follow the
  props and the closing loop (lines 549-566) decides the interaction and caching flags
  of every object.
\<close>

definition enforceTool :: "string \<Rightarrow> bool \<Rightarrow> cobj \<Rightarrow> cobj" where
  "enforceTool t ro obj =
     (let obj1 = (if t = ''zoom'' then obj\<lparr> selectable := False, evented := False \<rparr>
                  else obj\<lparr> selectable := \<not> ro \<and> (t = ''select'' \<or> t = ''text''),
                            evented := \<not> ro \<rparr>)
      in if t = ''eraser'' then obj1\<lparr> objectCaching := False \<rparr>
         else if globalCompositeOperation obj1 \<noteq> ''destination-out''
         then obj1\<lparr> objectCaching := True \<rparr>
         else obj1)"

definition toolEffect :: "string \<Rightarrow> bool \<Rightarrow> client \<Rightarrow> client" where
  "toolEffect t ro s =
     s\<lparr> activeTool := t, isReadOnly := ro, objects := map (enforceTool t ro) (objects s) \<rparr>"

section \<open>Example sessions\<close>

text \<open>
  Concrete runs of the model, used below to evaluate it. An editor on an 800 by 600
  canvas in room \<^verbatim>\<open>room-1\<close> adds one shape (\<open>exOne\<close>) or three shapes on top of each
  other (\<open>exBoard\<close>), then picks the eraser (\<open>exEraser\<close>).
\<close>

definition exShape :: "string \<Rightarrow> string \<Rightarrow> string \<Rightarrow> cobj" where
  "exShape t i st =
     \<lparr> oid = Some i, otype = t, oleft = 400, otop = 300, payload = st,
       globalCompositeOperation = ''source-over'', objectCaching = True, remote = False,
       isRipple = False, selectable = True, evented = True, isEditing = False \<rparr>"

definition exOne :: client where
  "exOne = addShape ''square'' ''a'' ''red'' (initClient ''select'' False ''room-1'' 800 600)"

definition exBoard :: client where
  "exBoard = addShape ''triangle'' ''c'' ''blue'' (addShape ''circle'' ''b'' ''green'' exOne)"

definition exEraser :: client where
  "exEraser = toolEffect ''eraser'' False exBoard"

text \<open>The snapshot of a canvas with the initial background that holds \<open>objs\<close>.\<close>

definition exSnap :: "cobj list \<Rightarrow> snapshot" where
  "exSnap objs = \<lparr> s_background = ''transparent'', s_objects = map (objToJSON histProps) objs \<rparr>"

text \<open>The editor undoes the single shape and the restore timer fires.\<close>

definition exUndone :: client where
  "exUndone = restoreTimeout (undo_op exOne)"

text \<open>
  The editor of \<open>exUndone\<close> has called \<^verbatim>\<open>clearCanvas\<close>, which has cleared the canvas
  and emitted the event and is about to call \<^verbatim>\<open>saveHistory\<close>.
\<close>

definition exClearing :: client where
  "exClearing = emit (clearEvent (roomId exUndone)) (canvas_clear exUndone)"

text \<open>A replicated add, as another client sends it for its own rectangle.\<close>

definition exAdded :: canvas_event where
  "exAdded = \<lparr> room = ''room-1'', etype = ''object:added'', eid = Some ''z'',
               edata = Some (objToJSON histProps (exShape ''Rect'' ''z'' ''red'')) \<rparr>"

text \<open>The editor copies the shape; then the hook is rendered read-only.\<close>

definition exViewer :: client where
  "exViewer = toolEffect ''select'' True (copy (ActiveObject 0) exOne)"

text \<open>The editor copies the shape and undoes; the restore timer has not fired yet.\<close>

definition exRestoring :: client where
  "exRestoring = undo_op (copy (ActiveObject 0) exOne)"

text \<open>The editor copies a selection of the two lower shapes of the board.\<close>

definition exWrapper :: cobj where
  "exWrapper =
     \<lparr> oid = None, otype = ''ActiveSelection'', oleft = 400, otop = 300, payload = [],
       globalCompositeOperation = ''source-over'', objectCaching = True, remote = False,
       isRipple = False, selectable = True, evented = True, isEditing = False \<rparr>"

definition exMulti :: client where
  "exMulti = copy (ActiveSelection exWrapper [0, 1]) exBoard"

text \<open>The ids \<^verbatim>\<open>Math.random()\<close> yields in the examples: \<open>p\<close>, \<open>pp\<close>, \<open>ppp\<close>, ...\<close>

definition exRnd :: "nat \<Rightarrow> string" where
  "exRnd k = replicate (Suc k) CHR ''p''"

text \<open>
  Three connections with the ids \<open>t\<close>, \<open>b\<close> and \<open>a\<close> have joined \<^verbatim>\<open>room-1\<close>, in this
  order; \<open>b\<close> has learnt the id of \<open>a\<close> from the \<^verbatim>\<open>request-sync\<close> it was sent and has
  then sent \<^verbatim>\<open>join-room\<close> with the room name \<open>a\<close>.
\<close>

type_synonym deliveries = "(string \<times> (canvas_event, snapshot) server_msg) set"

definition joined :: "string \<Rightarrow> string \<Rightarrow> relay \<Rightarrow> relay" where
  "joined sid r R = fst (relay_join_room sid r R :: relay \<times> deliveries)"

definition exRoom :: relay where
  "exRoom =
     joined ''a'' ''room-1'' (relay_connection ''a''
       (joined ''b'' ''room-1'' (relay_connection ''b''
          (joined ''t'' ''room-1'' (relay_connection ''t'' relay_empty)))))"

definition exCollide :: relay where
  "exCollide = joined ''b'' ''a'' exRoom"

section \<open>Frame properties of the primitives\<close>

lemma saveHistory_frame [simp]:
  "objects (saveHistory s) = objects s"
  "emitted (saveHistory s) = emitted s"
  "isRestoring (saveHistory s) = isRestoring s"
  "activeTool (saveHistory s) = activeTool s"
  "isReadOnly (saveHistory s) = isReadOnly s"
  "roomId (saveHistory s) = roomId s"
  "clipboard (saveHistory s) = clipboard s"
  "isEraserDragging (saveHistory s) = isEraserDragging s"
  "backgroundColor (saveHistory s) = backgroundColor s"
  by (simp_all add: saveHistory_def Let_def)

lemma saveHistory_restoring [simp]: "isRestoring s \<Longrightarrow> saveHistory s = s"
  by (simp add: saveHistory_def)

lemma emit_frame [simp]:
  "objects (emit m s) = objects s"
  "emitted (emit m s) = emitted s @ [m]"
  "undo (emit m s) = undo s"
  "redo (emit m s) = redo s"
  "isRestoring (emit m s) = isRestoring s"
  "activeTool (emit m s) = activeTool s"
  "isReadOnly (emit m s) = isReadOnly s"
  "roomId (emit m s) = roomId s"
  "clipboard (emit m s) = clipboard s"
  "isEraserDragging (emit m s) = isEraserDragging s"
  "backgroundColor (emit m s) = backgroundColor s"
  by (simp_all add: emit_def)

lemma addedFlags_frame [simp]:
  "remote (addedFlags s obj) = remote obj"
  "oid (addedFlags s obj) = oid obj"
  "otype (addedFlags s obj) = otype obj"
  "oleft (addedFlags s obj) = oleft obj"
  "otop (addedFlags s obj) = otop obj"
  "payload (addedFlags s obj) = payload obj"
  "globalCompositeOperation (addedFlags s obj) = globalCompositeOperation obj"
  "isRipple (addedFlags s obj) = isRipple obj"
  by (simp_all add: addedFlags_def)

lemma addedFlags_cong:
  "isReadOnly t = isReadOnly s \<Longrightarrow> activeTool t = activeTool s \<Longrightarrow> addedFlags t = addedFlags s"
  by (rule ext) (simp add: addedFlags_def)

lemma canvas_add_frame [simp]:
  "objects (canvas_add obj s) = objects s @ [addedFlags s obj]"
  "emitted (canvas_add obj s) = emitted s"
  "isRestoring (canvas_add obj s) = isRestoring s"
  "activeTool (canvas_add obj s) = activeTool s"
  "isReadOnly (canvas_add obj s) = isReadOnly s"
  "roomId (canvas_add obj s) = roomId s"
  "clipboard (canvas_add obj s) = clipboard s"
  "isEraserDragging (canvas_add obj s) = isEraserDragging s"
  "backgroundColor (canvas_add obj s) = backgroundColor s"
  by (simp_all add: canvas_add_def Let_def)

lemma canvas_add_remote_history:
  "remote obj \<Longrightarrow> undo (canvas_add obj s) = undo s \<and> redo (canvas_add obj s) = redo s"
  by (simp add: canvas_add_def Let_def)

lemma canvas_add_restoring_history:
  "isRestoring s \<Longrightarrow> undo (canvas_add obj s) = undo s \<and> redo (canvas_add obj s) = redo s"
  by (simp add: canvas_add_def Let_def)

lemma on_object_removed_frame [simp]:
  "objects (on_object_removed tgt s) = objects s"
  "isRestoring (on_object_removed tgt s) = isRestoring s"
  "activeTool (on_object_removed tgt s) = activeTool s"
  "isReadOnly (on_object_removed tgt s) = isReadOnly s"
  "roomId (on_object_removed tgt s) = roomId s"
  "clipboard (on_object_removed tgt s) = clipboard s"
  "isEraserDragging (on_object_removed tgt s) = isEraserDragging s"
  "backgroundColor (on_object_removed tgt s) = backgroundColor s"
  by (simp_all add: on_object_removed_def Let_def)

lemma on_object_removed_emitted:
  "emitted (on_object_removed tgt s) =
     emitted s @ (if activeTool s = ''eraser'' \<and> truthy_id tgt \<and> \<not> remote tgt
                  then [removedEvent (roomId s) (oid tgt)] else [])"
  by (simp add: on_object_removed_def Let_def)

lemma on_object_removed_restoring_history:
  "isRestoring s \<Longrightarrow>
     undo (on_object_removed tgt s) = undo s \<and> redo (on_object_removed tgt s) = redo s"
  by (simp add: on_object_removed_def Let_def)

lemma canvas_remove_at_frame [simp]:
  "isRestoring (canvas_remove_at i s) = isRestoring s"
  "activeTool (canvas_remove_at i s) = activeTool s"
  "isReadOnly (canvas_remove_at i s) = isReadOnly s"
  "roomId (canvas_remove_at i s) = roomId s"
  "clipboard (canvas_remove_at i s) = clipboard s"
  "isEraserDragging (canvas_remove_at i s) = isEraserDragging s"
  "backgroundColor (canvas_remove_at i s) = backgroundColor s"
  by (simp_all add: canvas_remove_at_def)

lemma canvas_remove_at_objects:
  "objects (canvas_remove_at i s) = take i (objects s) @ drop (Suc i) (objects s)"
  by (simp add: canvas_remove_at_def)

lemma canvas_remove_at_split:
  "objects s = pre @ obj # suf \<Longrightarrow> objects (canvas_remove_at (length pre) s) = pre @ suf"
  by (simp add: canvas_remove_at_objects)

lemma canvas_remove_at_emitted:
  "objects s = pre @ obj # suf \<Longrightarrow>
     emitted (canvas_remove_at (length pre) s) =
       emitted s @ (if activeTool s = ''eraser'' \<and> truthy_id obj \<and> \<not> remote obj
                    then [removedEvent (roomId s) (oid obj)] else [])"
  by (simp add: canvas_remove_at_def on_object_removed_emitted)

lemma canvas_remove_at_restoring_history:
  "isRestoring s \<Longrightarrow>
     undo (canvas_remove_at i s) = undo s \<and> redo (canvas_remove_at i s) = redo s"
  by (simp add: canvas_remove_at_def on_object_removed_restoring_history)

lemma remove_each_frame [simp]:
  "isRestoring (remove_each P snap i s) = isRestoring s"
  "activeTool (remove_each P snap i s) = activeTool s"
  "isReadOnly (remove_each P snap i s) = isReadOnly s"
  "roomId (remove_each P snap i s) = roomId s"
  "clipboard (remove_each P snap i s) = clipboard s"
  "isEraserDragging (remove_each P snap i s) = isEraserDragging s"
  "backgroundColor (remove_each P snap i s) = backgroundColor s"
  by (induction P snap i s rule: remove_each.induct; simp)+

lemma remove_each_restoring_history:
  "isRestoring s \<Longrightarrow>
     undo (remove_each P snap i s) = undo s \<and> redo (remove_each P snap i s) = redo s"
  by (induction P snap i s rule: remove_each.induct)
     (simp_all add: canvas_remove_at_restoring_history)

text \<open>
  Removing the objects that satisfy \<open>P\<close> leaves the others in their order; clearing
  the canvas leaves none.
\<close>

lemma remove_each_objects:
  "objects s = pre @ snap \<Longrightarrow>
     objects (remove_each P snap (length pre) s) = pre @ filter (\<lambda>obj. \<not> P obj) snap"
proof (induction snap arbitrary: pre s)
  case Nil
  then show ?case by simp
next
  case (Cons obj rest)
  show ?case
  proof (cases "P obj")
    case True
    have "objects (canvas_remove_at (length pre) s) = pre @ rest"
      using Cons.prems by (rule canvas_remove_at_split)
    from Cons.IH [OF this] True show ?thesis by simp
  next
    case False
    have "objects s = (pre @ [obj]) @ rest" using Cons.prems by simp
    from Cons.IH [OF this] False show ?thesis by simp
  qed
qed

lemma canvas_clear_objects [simp]: "objects (canvas_clear s) = []"
  using remove_each_objects [of s "[]" "objects s" "\<lambda>_. True"]
  by (simp add: canvas_clear_def)

lemma canvas_clear_frame [simp]:
  "isRestoring (canvas_clear s) = isRestoring s"
  "activeTool (canvas_clear s) = activeTool s"
  "isReadOnly (canvas_clear s) = isReadOnly s"
  "roomId (canvas_clear s) = roomId s"
  "clipboard (canvas_clear s) = clipboard s"
  "backgroundColor (canvas_clear s) = []"
  by (simp_all add: canvas_clear_def)

lemma canvas_clear_restoring_history:
  "isRestoring s \<Longrightarrow> undo (canvas_clear s) = undo s \<and> redo (canvas_clear s) = redo s"
  by (simp add: canvas_clear_def remove_each_restoring_history)

lemma add_all_frame [simp]:
  "isRestoring (foldl (\<lambda>t obj. canvas_add obj t) s objs) = isRestoring s"
  "activeTool (foldl (\<lambda>t obj. canvas_add obj t) s objs) = activeTool s"
  "isReadOnly (foldl (\<lambda>t obj. canvas_add obj t) s objs) = isReadOnly s"
  "roomId (foldl (\<lambda>t obj. canvas_add obj t) s objs) = roomId s"
  "clipboard (foldl (\<lambda>t obj. canvas_add obj t) s objs) = clipboard s"
  "emitted (foldl (\<lambda>t obj. canvas_add obj t) s objs) = emitted s"
  "backgroundColor (foldl (\<lambda>t obj. canvas_add obj t) s objs) = backgroundColor s"
  by (induction objs arbitrary: s; simp)+

lemma add_all_objects:
  "objects (foldl (\<lambda>t obj. canvas_add obj t) s objs) = objects s @ map (addedFlags s) objs"
proof (induction objs arbitrary: s)
  case Nil
  show ?case by simp
next
  case (Cons obj rest)
  have "addedFlags (canvas_add obj s) = addedFlags s"
    by (rule addedFlags_cong) simp_all
  with Cons show ?case by simp
qed

lemma add_all_restoring_history:
  "isRestoring s \<Longrightarrow>
     undo (foldl (\<lambda>t obj. canvas_add obj t) s objs) = undo s
   \<and> redo (foldl (\<lambda>t obj. canvas_add obj t) s objs) = redo s"
  by (induction objs arbitrary: s) (simp_all add: canvas_add_restoring_history)

text \<open>
  While \<^verbatim>\<open>isRestoringRef\<close> is set, loading a snapshot replaces the objects and leaves
  both history stacks alone: every \<^verbatim>\<open>saveHistory\<close> the listeners attempt returns at once.
\<close>

lemma loadFromJSON_restoring:
  assumes "isRestoring s"
  shows "objects (loadFromJSON json s) = map (\<lambda>d. addedFlags s (fromObject d)) (s_objects json)"
    and "undo (loadFromJSON json s) = undo s"
    and "redo (loadFromJSON json s) = redo s"
    and "isRestoring (loadFromJSON json s)"
    and "backgroundColor (loadFromJSON json s) = s_background json"
proof -
  have c: "isRestoring (canvas_clear s)" using assms by simp
  have "addedFlags (canvas_clear s) = addedFlags s"
    by (rule addedFlags_cong) simp_all
  then show "objects (loadFromJSON json s)
               = map (\<lambda>d. addedFlags s (fromObject d)) (s_objects json)"
    by (simp add: loadFromJSON_def add_all_objects comp_def)
  show "undo (loadFromJSON json s) = undo s"
    using add_all_restoring_history [OF c] canvas_clear_restoring_history [OF assms]
    by (simp add: loadFromJSON_def)
  show "redo (loadFromJSON json s) = redo s"
    using add_all_restoring_history [OF c] canvas_clear_restoring_history [OF assms]
    by (simp add: loadFromJSON_def)
  show "isRestoring (loadFromJSON json s)"
    using assms by (simp add: loadFromJSON_def)
  show "backgroundColor (loadFromJSON json s) = s_background json"
    by (simp add: loadFromJSON_def)
qed

section \<open>Undo and redo: what a restore changes\<close>

lemma undo_op_noop: "length (undo s) \<le> 1 \<Longrightarrow> undo_op s = s"
  by (simp add: undo_op_def)

lemma undo_op_history:
  assumes "1 < length (undo s)"
  shows "undo (undo_op s) = butlast (undo s)"
    and "redo (undo_op s) = redo s @ [last (undo s)]"
    and "objects (undo_op s)
           = map (\<lambda>d. addedFlags s (fromObject d)) (s_objects (last (butlast (undo s))))"
    and "isRestoring (undo_op s)"
    and "backgroundColor (undo_op s) = s_background (last (butlast (undo s)))"
proof -
  let ?s3 = "s\<lparr> isRestoring := True, undo := butlast (undo s), redo := redo s @ [last (undo s)] \<rparr>"
  have r: "isRestoring ?s3" by simp
  have u: "undo_op s = loadFromJSON (last (butlast (undo s))) ?s3"
    using assms by (simp add: undo_op_def Let_def)
  have f: "addedFlags ?s3 = addedFlags s" by (rule addedFlags_cong) simp_all
  show "undo (undo_op s) = butlast (undo s)"
    using loadFromJSON_restoring(2) [OF r] by (simp add: u)
  show "redo (undo_op s) = redo s @ [last (undo s)]"
    using loadFromJSON_restoring(3) [OF r] by (simp add: u)
  show "objects (undo_op s)
          = map (\<lambda>d. addedFlags s (fromObject d)) (s_objects (last (butlast (undo s))))"
    using loadFromJSON_restoring(1) [OF r] by (simp add: u f)
  show "isRestoring (undo_op s)"
    using loadFromJSON_restoring(4) [OF r] by (simp add: u)
  show "backgroundColor (undo_op s) = s_background (last (butlast (undo s)))"
    using loadFromJSON_restoring(5) [OF r] by (simp add: u)
qed

lemma redo_op_history:
  assumes "redo s \<noteq> []"
  shows "undo (redo_op s) = undo s @ [last (redo s)]"
    and "redo (redo_op s) = butlast (redo s)"
    and "objects (redo_op s) = map (\<lambda>d. addedFlags s (fromObject d)) (s_objects (last (redo s)))"
    and "isRestoring (redo_op s)"
    and "backgroundColor (redo_op s) = s_background (last (redo s))"
proof -
  let ?s3 = "s\<lparr> isRestoring := True, redo := butlast (redo s), undo := undo s @ [last (redo s)] \<rparr>"
  have r: "isRestoring ?s3" by simp
  have u: "redo_op s = loadFromJSON (last (redo s)) ?s3"
    using assms by (simp add: redo_op_def Let_def)
  have f: "addedFlags ?s3 = addedFlags s" by (rule addedFlags_cong) simp_all
  show "undo (redo_op s) = undo s @ [last (redo s)]"
    using loadFromJSON_restoring(2) [OF r] by (simp add: u)
  show "redo (redo_op s) = butlast (redo s)"
    using loadFromJSON_restoring(3) [OF r] by (simp add: u)
  show "objects (redo_op s) = map (\<lambda>d. addedFlags s (fromObject d)) (s_objects (last (redo s)))"
    using loadFromJSON_restoring(1) [OF r] by (simp add: u f)
  show "isRestoring (redo_op s)"
    using loadFromJSON_restoring(4) [OF r] by (simp add: u)
  show "backgroundColor (redo_op s) = s_background (last (redo s))"
    using loadFromJSON_restoring(5) [OF r] by (simp add: u)
qed

lemma undo_op_frame [simp]:
  "activeTool (undo_op s) = activeTool s" "isReadOnly (undo_op s) = isReadOnly s"
  by (simp_all add: undo_op_def loadFromJSON_def Let_def)

lemma history_step_nonempty: "undo s \<noteq> [] \<Longrightarrow> undo (history_step c s) \<noteq> []"
proof (cases c)
  case Undo
  assume n: "undo s \<noteq> []"
  show ?thesis
  proof (cases "1 < length (undo s)")
    case True
    then have "butlast (undo s) \<noteq> []" by (cases "undo s") auto
    with True Undo show ?thesis by (simp add: undo_op_history(1))
  next
    case False
    with n Undo show ?thesis by (simp add: undo_op_noop)
  qed
next
  case Redo
  assume n: "undo s \<noteq> []"
  show ?thesis
  proof (cases "redo s = []")
    case True
    with n Redo show ?thesis by (simp add: redo_op_def)
  next
    case False
    with Redo show ?thesis by (simp add: redo_op_history(1))
  qed
next
  case Timeout
  assume "undo s \<noteq> []"
  with Timeout show ?thesis by (simp add: restoreTimeout_def)
qed

lemma history_run_nonempty: "undo s \<noteq> [] \<Longrightarrow> undo (history_run calls s) \<noteq> []"
  unfolding history_run_def
  by (induction calls arbitrary: s) (simp_all add: history_step_nonempty)

text \<open>
  A snapshot taken of a canvas carries no custom property; what is loaded from it
  serialises to the same snapshot again and has no ids.
\<close>

lemma restore_object:
  "objToJSON p (addedFlags s (fromObject (objToJSON q obj))) = objToJSON q obj"
  by (simp add: objToJSON_def toObject_def fromObject_def)

lemma restored_oid: "oid (addedFlags s (fromObject (objToJSON q obj))) = None"
  by (simp add: objToJSON_def toObject_def fromObject_def)

text \<open>
  What a restore emits. The removals that clear the canvas go through the
  \<^verbatim>\<open>object:removed\<close> listener, which broadcasts each local object with an id while the
  eraser is the active tool, restore or not; with any other tool a restore is silent.
\<close>

lemma remove_each_emitted:
  "objects s = pre @ snap \<Longrightarrow>
     emitted (remove_each P snap (length pre) s) =
       emitted s @ concat (map (\<lambda>obj. if P obj \<and> activeTool s = ''eraser'' \<and> truthy_id obj
                                           \<and> \<not> remote obj
                                       then [removedEvent (roomId s) (oid obj)] else []) snap)"
proof (induction snap arbitrary: pre s)
  case Nil
  then show ?case by simp
next
  case (Cons obj rest)
  let ?ev = "\<lambda>t r obj. if P obj \<and> t = ''eraser'' \<and> truthy_id obj \<and> \<not> remote obj
                        then [removedEvent r (oid obj)] else []"
  show ?case
  proof (cases "P obj")
    case True
    let ?s1 = "canvas_remove_at (length pre) s"
    have step: "remove_each P (obj # rest) (length pre) s = remove_each P rest (length pre) ?s1"
      using True by simp
    have o1: "objects ?s1 = pre @ rest" using Cons.prems by (rule canvas_remove_at_split)
    have e1: "emitted ?s1 = emitted s @ ?ev (activeTool s) (roomId s) obj"
      using canvas_remove_at_emitted [OF Cons.prems] True by simp
    have "emitted (remove_each P rest (length pre) ?s1)
            = emitted ?s1 @ concat (map (?ev (activeTool ?s1) (roomId ?s1)) rest)"
      by (rule Cons.IH [OF o1])
    then have "emitted (remove_each P (obj # rest) (length pre) s)
            = (emitted s @ ?ev (activeTool s) (roomId s) obj)
              @ concat (map (?ev (activeTool s) (roomId s)) rest)"
      by (simp only: step e1 canvas_remove_at_frame)
    then show ?thesis by simp
  next
    case False
    have step: "remove_each P (obj # rest) (length pre) s
                  = remove_each P rest (length (pre @ [obj])) s"
      using False by simp
    have "objects s = (pre @ [obj]) @ rest" using Cons.prems by simp
    from Cons.IH [OF this]
    have "emitted (remove_each P (obj # rest) (length pre) s)
            = emitted s @ concat (map (?ev (activeTool s) (roomId s)) rest)"
      by (simp only: step)
    with False show ?thesis by simp
  qed
qed

lemma canvas_clear_emitted:
  "emitted (canvas_clear s) =
     emitted s @ (if activeTool s = ''eraser''
                  then map (\<lambda>obj. removedEvent (roomId s) (oid obj))
                         (filter (\<lambda>obj. truthy_id obj \<and> \<not> remote obj) (objects s))
                  else [])"
proof -
  have "objects s = [] @ objects s" by simp
  from remove_each_emitted [OF this, of "\<lambda>_. True"]
  have e: "emitted (canvas_clear s) =
       emitted s @ concat (map (\<lambda>obj. if activeTool s = ''eraser'' \<and> truthy_id obj \<and> \<not> remote obj
                                       then [removedEvent (roomId s) (oid obj)] else [])
                              (objects s))"
    by (simp add: canvas_clear_def)
  have "concat (map (\<lambda>obj. if activeTool s = ''eraser'' \<and> truthy_id obj \<and> \<not> remote obj
                           then [removedEvent (roomId s) (oid obj)] else []) xs)
        = (if activeTool s = ''eraser''
           then map (\<lambda>obj. removedEvent (roomId s) (oid obj))
                  (filter (\<lambda>obj. truthy_id obj \<and> \<not> remote obj) xs)
           else [])" for xs
    by (induction xs) auto
  with e show ?thesis by simp
qed

lemma loadFromJSON_emitted: "emitted (loadFromJSON json s) = emitted (canvas_clear s)"
  by (simp add: loadFromJSON_def)

lemma undo_op_emitted:
  "1 < length (undo s) \<Longrightarrow>
   emitted (undo_op s) =
     emitted s @ (if activeTool s = ''eraser''
                  then map (\<lambda>obj. removedEvent (roomId s) (oid obj))
                         (filter (\<lambda>obj. truthy_id obj \<and> \<not> remote obj) (objects s))
                  else [])"
  by (simp add: undo_op_def Let_def loadFromJSON_emitted canvas_clear_emitted)

lemma redo_op_emitted:
  "redo s \<noteq> [] \<Longrightarrow>
   emitted (redo_op s) =
     emitted s @ (if activeTool s = ''eraser''
                  then map (\<lambda>obj. removedEvent (roomId s) (oid obj))
                         (filter (\<lambda>obj. truthy_id obj \<and> \<not> remote obj) (objects s))
                  else [])"
  by (simp add: redo_op_def Let_def loadFromJSON_emitted canvas_clear_emitted)

lemma undo_redo_silent_without_eraser:
  "activeTool s \<noteq> ''eraser'' \<longrightarrow>
     emitted (undo_op s) = emitted s \<and> emitted (redo_op s) = emitted s"
proof (intro impI conjI)
  assume t: "activeTool s \<noteq> ''eraser''"
  show "emitted (undo_op s) = emitted s"
  proof (cases "1 < length (undo s)")
    case True
    with t show ?thesis by (simp add: undo_op_emitted)
  next
    case False
    then show ?thesis by (simp add: undo_op_noop)
  qed
  assume t: "activeTool s \<noteq> ''eraser''"
  show "emitted (redo_op s) = emitted s"
  proof (cases "redo s = []")
    case True
    then show ?thesis by (simp add: redo_op_def)
  next
    case False
    with t show ?thesis by (simp add: redo_op_emitted)
  qed
qed

lemma saveHistory_records:
  "\<not> isRestoring s \<Longrightarrow>
     undo (saveHistory s) \<noteq> [] \<and> last (undo (saveHistory s)) = toJSON histProps s"
  by (simp add: saveHistory_def Let_def)

lemma clone_fields [simp]:
  "otype (clone props obj) = otype obj"
  "oleft (clone props obj) = oleft obj"
  "otop (clone props obj) = otop obj"
  "payload (clone props obj) = payload obj"
  "globalCompositeOperation (clone props obj) = globalCompositeOperation obj"
  by (simp_all add: clone_def fromObject_def toObject_def)

section \<open>The eraser loop\<close>

lemma scrub_frame [simp]:
  "activeTool (scrub hit todo s) = activeTool s"
  "roomId (scrub hit todo s) = roomId s"
  "isReadOnly (scrub hit todo s) = isReadOnly s"
  "isRestoring (scrub hit todo s) = isRestoring s"
  "clipboard (scrub hit todo s) = clipboard s"
  by (induction hit todo s rule: scrub.induct; simp)+

text \<open>
  One pass of the eraser loop removes exactly the eligible objects that contain the
  point. For each of them the handler emits one \<^verbatim>\<open>object:removed\<close>, and the listener a
  second one unless the object is remote.
\<close>

lemma scrub_objects:
  "objects s = rev todo @ suf \<Longrightarrow>
     objects (scrub hit todo s) = filter (\<lambda>obj. \<not> (eligible obj \<and> hit obj)) (rev todo) @ suf"
proof (induction todo arbitrary: s suf)
  case Nil
  then show ?case by simp
next
  case (Cons obj below)
  show ?case
  proof (cases "eligible obj \<and> hit obj")
    case True
    let ?s1 = "emit (removedEvent (roomId s) (oid obj)) s"
    have step: "scrub hit (obj # below) s = scrub hit below (canvas_remove_at (length below) ?s1)"
      using True by simp
    have "objects ?s1 = rev below @ obj # suf" using Cons.prems by simp
    then have "objects (canvas_remove_at (length (rev below)) ?s1) = rev below @ suf"
      by (rule canvas_remove_at_split)
    then have "objects (canvas_remove_at (length below) ?s1) = rev below @ suf" by simp
    from Cons.IH [OF this] have
      "objects (scrub hit (obj # below) s)
         = filter (\<lambda>obj. \<not> (eligible obj \<and> hit obj)) (rev below) @ suf"
      by (simp only: step)
    moreover have "filter (\<lambda>obj. \<not> (eligible obj \<and> hit obj)) (rev (obj # below))
         = filter (\<lambda>obj. \<not> (eligible obj \<and> hit obj)) (rev below)"
      using True by simp
    ultimately show ?thesis by (simp only:)
  next
    case False
    have step: "scrub hit (obj # below) s = scrub hit below s"
      using False by auto
    have "objects s = rev below @ (obj # suf)" using Cons.prems by simp
    from Cons.IH [OF this] have
      "objects (scrub hit (obj # below) s)
         = filter (\<lambda>obj. \<not> (eligible obj \<and> hit obj)) (rev below) @ obj # suf"
      by (simp only: step)
    moreover have "filter (\<lambda>obj. \<not> (eligible obj \<and> hit obj)) (rev (obj # below)) @ suf
         = filter (\<lambda>obj. \<not> (eligible obj \<and> hit obj)) (rev below) @ obj # suf"
      using False by auto
    ultimately show ?thesis by (simp only:)
  qed
qed

lemma scrub_emitted:
  "objects s = rev todo @ suf \<Longrightarrow> activeTool s = ''eraser'' \<Longrightarrow>
     emitted (scrub hit todo s) =
       emitted s @ concat (map (\<lambda>obj. if eligible obj \<and> hit obj
                                       then removedEvent (roomId s) (oid obj)
                                            # (if remote obj then []
                                               else [removedEvent (roomId s) (oid obj)])
                                       else []) todo)"
proof (induction todo arbitrary: s suf)
  case Nil
  then show ?case by simp
next
  case (Cons obj below)
  let ?ev = "\<lambda>r obj. if eligible obj \<and> hit obj
                      then removedEvent r (oid obj)
                           # (if remote obj then [] else [removedEvent r (oid obj)])
                      else []"
  show ?case
  proof (cases "eligible obj \<and> hit obj")
    case True
    let ?s1 = "emit (removedEvent (roomId s) (oid obj)) s"
    let ?s2 = "canvas_remove_at (length below) ?s1"
    have step: "scrub hit (obj # below) s = scrub hit below ?s2"
      using True by simp
    have o1: "objects ?s1 = rev below @ obj # suf" using Cons.prems by simp
    then have "objects (canvas_remove_at (length (rev below)) ?s1) = rev below @ suf"
      by (rule canvas_remove_at_split)
    then have o2: "objects ?s2 = rev below @ suf" by simp
    have t2: "activeTool ?s2 = ''eraser''" using Cons.prems by simp
    have r2: "roomId ?s2 = roomId s" by simp
    have "emitted (canvas_remove_at (length (rev below)) ?s1) =
            emitted ?s1 @ (if activeTool ?s1 = ''eraser'' \<and> truthy_id obj \<and> \<not> remote obj
                           then [removedEvent (roomId ?s1) (oid obj)] else [])"
      using o1 by (rule canvas_remove_at_emitted)
    then have e2: "emitted ?s2 = emitted s @ ?ev (roomId s) obj"
      using True Cons.prems by (simp add: eligible_def)
    have "emitted (scrub hit below ?s2)
            = emitted ?s2 @ concat (map (?ev (roomId ?s2)) below)"
      by (rule Cons.IH [OF o2 t2])
    then have "emitted (scrub hit (obj # below) s)
            = (emitted s @ ?ev (roomId s) obj) @ concat (map (?ev (roomId s)) below)"
      by (simp only: step e2 r2)
    then show ?thesis by simp
  next
    case False
    have step: "scrub hit (obj # below) s = scrub hit below s"
      using False by auto
    have e: "?ev (roomId s) obj = []" using False by auto
    have "objects s = rev below @ (obj # suf)" using Cons.prems by simp
    from Cons.IH [OF this Cons.prems(2)]
    have "emitted (scrub hit (obj # below) s)
            = emitted s @ concat (map (?ev (roomId s)) below)"
      by (simp only: step)
    with e show ?thesis by simp
  qed
qed

text \<open>
  Where the canvas has \<^verbatim>\<open>getPointer\<close>, a drag sample runs the loop; where it has not,
  the sample throws with nothing removed and nothing emitted.
\<close>

lemma handleScrubberMove_sample:
  assumes "activeTool s = ''eraser''" and "buttons = 1 \<or> (buttons \<noteq> 0 \<and> isEraserDragging s)"
  shows "handleScrubberMove buttons (Some p) containsPoint s
           = Inr (scrub (containsPoint p) (rev (objects s)) (s\<lparr> isEraserDragging := True \<rparr>))"
    and "objects (scrub (containsPoint p) (rev (objects s)) (s\<lparr> isEraserDragging := True \<rparr>))
           = filter (\<lambda>obj. \<not> (eligible obj \<and> containsPoint p obj)) (objects s)"
    and "emitted (scrub (containsPoint p) (rev (objects s)) (s\<lparr> isEraserDragging := True \<rparr>))
           = emitted s @ concat (map (\<lambda>obj. if eligible obj \<and> containsPoint p obj
                                       then removedEvent (roomId s) (oid obj)
                                            # (if remote obj then []
                                               else [removedEvent (roomId s) (oid obj)])
                                       else []) (rev (objects s)))"
proof -
  let ?s2 = "s\<lparr> isEraserDragging := True \<rparr>"
  have d: "isEraserDragging s \<Longrightarrow> ?s2 = s" by (cases s) simp
  show "handleScrubberMove buttons (Some p) containsPoint s
          = Inr (scrub (containsPoint p) (rev (objects s)) ?s2)"
    using assms by (auto simp add: handleScrubberMove_def Let_def d)
  have o: "objects ?s2 = rev (rev (objects s)) @ []" by simp
  have t: "activeTool ?s2 = ''eraser''" using assms by simp
  show "objects (scrub (containsPoint p) (rev (objects s)) ?s2)
           = filter (\<lambda>obj. \<not> (eligible obj \<and> containsPoint p obj)) (objects s)"
    using scrub_objects [OF o, of "containsPoint p"] by simp
  show "emitted (scrub (containsPoint p) (rev (objects s)) ?s2)
           = emitted s @ concat (map (\<lambda>obj. if eligible obj \<and> containsPoint p obj
                                       then removedEvent (roomId s) (oid obj)
                                            # (if remote obj then []
                                               else [removedEvent (roomId s) (oid obj)])
                                       else []) (rev (objects s)))"
    using scrub_emitted [OF o t, of "containsPoint p"] by (simp cong: if_cong)
qed

lemma handleScrubberMove_throws:
  assumes "activeTool s = ''eraser''" and "buttons = 1 \<or> (buttons \<noteq> 0 \<and> isEraserDragging s)"
  shows "handleScrubberMove buttons None containsPoint s
           = Inl (TypeError, s\<lparr> isEraserDragging := True \<rparr>)"
proof -
  have d: "isEraserDragging s \<Longrightarrow> s\<lparr> isEraserDragging := True \<rparr> = s" by (cases s) simp
  show ?thesis using assms by (auto simp add: handleScrubberMove_def Let_def d)
qed

text \<open>The \<^verbatim>\<open>mouse:down\<close> handler on an eligible target.\<close>

lemma mouse_down_erases:
  assumes "activeTool s = ''eraser''" and "i < length (objects s)"
    and "eligible (objects s ! i)"
    and "target = Some i
         \<or> (target = None \<and> topmost_hit (containsPoint p) (rev (objects s)) = Some i)"
  shows "mouse_down target (Some p) getPointer containsPoint s
           = Inr (saveHistory (canvas_remove_at i
                    (emit (removedEvent (roomId s) (oid (objects s ! i)))
                       (s\<lparr> isEraserDragging := True \<rparr>))))"
    and "objects (saveHistory (canvas_remove_at i
                    (emit (removedEvent (roomId s) (oid (objects s ! i)))
                       (s\<lparr> isEraserDragging := True \<rparr>))))
           = take i (objects s) @ drop (Suc i) (objects s)"
    and "emitted (saveHistory (canvas_remove_at i
                    (emit (removedEvent (roomId s) (oid (objects s ! i)))
                       (s\<lparr> isEraserDragging := True \<rparr>))))
           = emitted s @ removedEvent (roomId s) (oid (objects s ! i))
               # (if remote (objects s ! i) then []
                  else [removedEvent (roomId s) (oid (objects s ! i))])"
proof -
  show "mouse_down target (Some p) getPointer containsPoint s
           = Inr (saveHistory (canvas_remove_at i
                    (emit (removedEvent (roomId s) (oid (objects s ! i)))
                       (s\<lparr> isEraserDragging := True \<rparr>))))"
    using assms by (auto simp add: mouse_down_def Let_def)
  show "objects (saveHistory (canvas_remove_at i
                    (emit (removedEvent (roomId s) (oid (objects s ! i)))
                       (s\<lparr> isEraserDragging := True \<rparr>))))
           = take i (objects s) @ drop (Suc i) (objects s)"
    by (simp add: canvas_remove_at_objects)
  have e: "truthy_id (objects s ! i)" using assms(3) by (simp add: eligible_def)
  show "emitted (saveHistory (canvas_remove_at i
                    (emit (removedEvent (roomId s) (oid (objects s ! i)))
                       (s\<lparr> isEraserDragging := True \<rparr>))))
           = emitted s @ removedEvent (roomId s) (oid (objects s ! i))
               # (if remote (objects s ! i) then []
                  else [removedEvent (roomId s) (oid (objects s ! i))])"
    using assms(1,2) e
    by (simp add: canvas_remove_at_def on_object_removed_emitted)
qed

section \<open>Inserting clones\<close>

text \<open>
  No lower-cased string holds a capital letter, so \<^verbatim>\<open>obj.type\<close> is never the string
  \<^verbatim>\<open>activeSelection\<close>: \<^verbatim>\<open>paste\<close> and \<^verbatim>\<open>duplicate\<close> always add the clone itself.
\<close>

lemma toLowerCase_no_capital_S: "CHR ''S'' \<notin> set (toLowerCase str)"
proof
  assume "CHR ''S'' \<in> set (toLowerCase str)"
  then obtain c where c: "CHR ''S'' = (case map_of lowerOf c of None \<Rightarrow> c | Some l \<Rightarrow> l)"
    by (auto simp add: toLowerCase_def)
  show False
  proof (cases "map_of lowerOf c")
    case None
    with c have "map_of lowerOf (CHR ''S'') = None" by simp
    then show False by (simp add: lowerOf_def)
  next
    case (Some l)
    with c have "map_of lowerOf c = Some (CHR ''S'')" by simp
    then have "(c, CHR ''S'') \<in> set lowerOf" by (rule map_of_SomeD)
    then have "CHR ''S'' \<in> snd ` set lowerOf" by force
    then show False by (simp add: lowerOf_def)
  qed
qed

lemma objType_not_activeSelection: "objType obj \<noteq> ''activeSelection''"
proof
  assume "objType obj = ''activeSelection''"
  then have "CHR ''S'' \<in> set (toLowerCase (otype obj))" by (simp add: objType_def)
  then show False using toLowerCase_no_capital_S by blast
qed

lemma insertClone_single:
  "objects (insertClone d rnd cl s)
     = objects s @ [addedFlags s ((c_obj cl)\<lparr> oleft := oleft (c_obj cl) + d,
           otop := otop (c_obj cl) + d, evented := True, selectable := True,
           oid := Some (rnd 0) \<rparr>)]"
  "emitted (insertClone d rnd cl s)
     = emitted s @ [addedEvent (roomId s) (Some (rnd 0))
         (objToJSON histProps (addedFlags s ((c_obj cl)\<lparr> oleft := oleft (c_obj cl) + d,
           otop := otop (c_obj cl) + d, evented := True, selectable := True,
           oid := Some (rnd 0) \<rparr>)))]"
  by (simp_all add: insertClone_def Let_def objType_not_activeSelection)

lemma insertClone_history:
  "\<not> isRestoring s \<Longrightarrow>
     undo (insertClone d rnd cl s) \<noteq> []
   \<and> last (undo (insertClone d rnd cl s)) = toJSON histProps (insertClone d rnd cl s)"
proof -
  assume r: "\<not> isRestoring s"
  have t: "toJSON p (saveHistory u) = toJSON p u" for p u
    by (simp add: toJSON_def)
  show ?thesis
    using r by (simp add: insertClone_def Let_def saveHistory_records objType_not_activeSelection t)
qed

lemma insertClone_restoring:
  "isRestoring s \<Longrightarrow>
     undo (insertClone d rnd cl s) = undo s \<and> redo (insertClone d rnd cl s) = redo s"
  by (simp add: insertClone_def Let_def canvas_add_restoring_history
        objType_not_activeSelection)

text \<open>A received \<^verbatim>\<open>object:added\<close> leaves the client as it is.\<close>

lemma on_canvas_event_added_noop:
  "etype event = ''object:added'' \<Longrightarrow> on_canvas_event event s = s"
  by (simp add: on_canvas_event_def enlivenObjects_def)

section \<open>Facts about the example sessions\<close>

lemma exShape_facts:
  "eligible (exShape t (c # cs) st)" "\<not> remote (exShape t i st)"
  "truthy_id (exShape t (c # cs) st)" "oid (exShape t i st) = Some i"
  "otype (exShape t i st) = t" "oleft (exShape t i st) = 400" "otop (exShape t i st) = 300"
  by (simp_all add: eligible_def truthy_id_def exShape_def)

lemma enforceTool_facts [simp]:
  "oid (enforceTool t ro obj) = oid obj"
  "remote (enforceTool t ro obj) = remote obj"
  "isRipple (enforceTool t ro obj) = isRipple obj"
  "otype (enforceTool t ro obj) = otype obj"
  "oleft (enforceTool t ro obj) = oleft obj"
  "otop (enforceTool t ro obj) = otop obj"
  "payload (enforceTool t ro obj) = payload obj"
  "globalCompositeOperation (enforceTool t ro obj) = globalCompositeOperation obj"
  "truthy_id (enforceTool t ro obj) = truthy_id obj"
  "eligible (enforceTool t ro obj) = eligible obj"
  by (simp_all add: enforceTool_def Let_def truthy_id_def eligible_def)

lemma toolEffect_facts [simp]:
  "objects (toolEffect t ro s) = map (enforceTool t ro) (objects s)"
  "activeTool (toolEffect t ro s) = t"
  "isReadOnly (toolEffect t ro s) = ro"
  "undo (toolEffect t ro s) = undo s"
  "redo (toolEffect t ro s) = redo s"
  "emitted (toolEffect t ro s) = emitted s"
  "roomId (toolEffect t ro s) = roomId s"
  "clipboard (toolEffect t ro s) = clipboard s"
  "isRestoring (toolEffect t ro s) = isRestoring s"
  "backgroundColor (toolEffect t ro s) = backgroundColor s"
  by (simp_all add: toolEffect_def)

lemma objToJSON_enforceTool [simp]: "objToJSON p (enforceTool t ro obj) = objToJSON q obj"
  by (simp add: objToJSON_def toObject_def)

text \<open>One \<^verbatim>\<open>addShape\<close> of an editor with the select tool whose history is up to date.\<close>

lemma addShape_editor:
  assumes "\<not> isReadOnly s" "\<not> isRestoring s" "activeTool s = ''select''"
    and "width s = 800" "height s = 600" "backgroundColor s = ''transparent''"
    and "newShape type i st s = Some (exShape t i st)"
    and "undo s \<noteq> []" "last (undo s) = exSnap (objects s)"
  shows "objects (addShape type i st s) = objects s @ [exShape t i st]"
    and "undo (addShape type i st s) = undo s @ [exSnap (objects s @ [exShape t i st])]"
    and "redo (addShape type i st s) = []"
    and "emitted (addShape type i st s)
          = emitted s @ [addedEvent (roomId s) (Some i) (objToJSON histProps (exShape t i st))]"
    and "isRestoring (addShape type i st s) = False"
    and "isReadOnly (addShape type i st s) = False"
    and "activeTool (addShape type i st s) = ''select''"
    and "roomId (addShape type i st s) = roomId s"
    and "clipboard (addShape type i st s) = clipboard s"
    and "width (addShape type i st s) = 800" and "height (addShape type i st s) = 600"
    and "backgroundColor (addShape type i st s) = ''transparent''"
  using assms
  by (simp_all add: addShape_def canvas_add_def set_last_def saveHistory_def emit_def
        addedFlags_def Let_def exShape_def toJSON_def exSnap_def objToJSON_def)

lemma newShape_ex:
  "width s = 800 \<Longrightarrow> height s = 600 \<Longrightarrow>
     newShape ''square'' i st s = Some (exShape ''Rect'' i st)
   \<and> newShape ''circle'' i st s = Some (exShape ''Circle'' i st)
   \<and> newShape ''triangle'' i st s = Some (exShape ''Triangle'' i st)"
  by (simp add: newShape_def exShape_def centerLeft_def centerTop_def)

lemma initClient_fields:
  "undo (initClient tool ro r w h) = [initialJson]" "objects (initClient tool ro r w h) = []"
  "backgroundColor (initClient tool ro r w h) = ''transparent''"
  "isReadOnly (initClient tool ro r w h) = ro" "isRestoring (initClient tool ro r w h) = False"
  "activeTool (initClient tool ro r w h) = tool" "roomId (initClient tool ro r w h) = r"
  "width (initClient tool ro r w h) = w" "height (initClient tool ro r w h) = h"
  "clipboard (initClient tool ro r w h) = None" "emitted (initClient tool ro r w h) = []"
  "redo (initClient tool ro r w h) = []"
  by (simp_all add: initClient_def Let_def toJSON_def initialJson_def)

lemma exSnap_empty: "exSnap [] = initialJson"
  by (simp add: exSnap_def initialJson_def)

lemma exOne_fields:
  "objects exOne = [exShape ''Rect'' ''a'' ''red'']"
  "undo exOne = [initialJson, exSnap [exShape ''Rect'' ''a'' ''red'']]"
  "redo exOne = []" "isRestoring exOne = False" "isReadOnly exOne = False"
  "activeTool exOne = ''select''" "roomId exOne = ''room-1''" "clipboard exOne = None"
  "length (emitted exOne) = 1" "width exOne = 800" "height exOne = 600"
  "backgroundColor exOne = ''transparent''"
proof -
  let ?i = "initClient ''select'' False ''room-1'' 800 600"
  have i: "\<not> isReadOnly ?i" "\<not> isRestoring ?i" "activeTool ?i = ''select''"
    "width ?i = 800" "height ?i = 600" "backgroundColor ?i = ''transparent''"
    "newShape ''square'' ''a'' ''red'' ?i = Some (exShape ''Rect'' ''a'' ''red'')"
    "undo ?i \<noteq> []" "last (undo ?i) = exSnap (objects ?i)"
    by (simp_all add: initClient_fields exSnap_empty newShape_ex)
  note A = addShape_editor [OF i]
  show "objects exOne = [exShape ''Rect'' ''a'' ''red'']"
    "undo exOne = [initialJson, exSnap [exShape ''Rect'' ''a'' ''red'']]"
    "redo exOne = []" "isRestoring exOne = False" "isReadOnly exOne = False"
    "activeTool exOne = ''select''" "roomId exOne = ''room-1''" "clipboard exOne = None"
    "length (emitted exOne) = 1" "width exOne = 800" "height exOne = 600"
    "backgroundColor exOne = ''transparent''"
    unfolding exOne_def using A by (simp_all add: initClient_fields)
qed

lemma exBoard_fields:
  "objects exBoard = [exShape ''Rect'' ''a'' ''red'', exShape ''Circle'' ''b'' ''green'',
                      exShape ''Triangle'' ''c'' ''blue'']"
  "undo exBoard = [initialJson, exSnap [exShape ''Rect'' ''a'' ''red''],
       exSnap [exShape ''Rect'' ''a'' ''red'', exShape ''Circle'' ''b'' ''green''],
       exSnap [exShape ''Rect'' ''a'' ''red'', exShape ''Circle'' ''b'' ''green'',
               exShape ''Triangle'' ''c'' ''blue'']]"
  "redo exBoard = []" "isRestoring exBoard = False" "isReadOnly exBoard = False"
  "activeTool exBoard = ''select''" "roomId exBoard = ''room-1''" "clipboard exBoard = None"
  "length (emitted exBoard) = 3" "backgroundColor exBoard = ''transparent''"
proof -
  let ?b = "addShape ''circle'' ''b'' ''green'' exOne"
  have p1: "\<not> isReadOnly exOne" "\<not> isRestoring exOne" "activeTool exOne = ''select''"
    "width exOne = 800" "height exOne = 600" "backgroundColor exOne = ''transparent''"
    "newShape ''circle'' ''b'' ''green'' exOne = Some (exShape ''Circle'' ''b'' ''green'')"
    "undo exOne \<noteq> []" "last (undo exOne) = exSnap (objects exOne)"
    by (simp_all add: exOne_fields newShape_ex)
  note B = addShape_editor [OF p1]
  have p2: "\<not> isReadOnly ?b" "\<not> isRestoring ?b" "activeTool ?b = ''select''"
    "width ?b = 800" "height ?b = 600" "backgroundColor ?b = ''transparent''"
    "newShape ''triangle'' ''c'' ''blue'' ?b = Some (exShape ''Triangle'' ''c'' ''blue'')"
    "undo ?b \<noteq> []" "last (undo ?b) = exSnap (objects ?b)"
    by (simp_all add: B newShape_ex)
  note C = addShape_editor [OF p2]
  show "objects exBoard = [exShape ''Rect'' ''a'' ''red'', exShape ''Circle'' ''b'' ''green'',
                      exShape ''Triangle'' ''c'' ''blue'']"
  "undo exBoard = [initialJson, exSnap [exShape ''Rect'' ''a'' ''red''],
       exSnap [exShape ''Rect'' ''a'' ''red'', exShape ''Circle'' ''b'' ''green''],
       exSnap [exShape ''Rect'' ''a'' ''red'', exShape ''Circle'' ''b'' ''green'',
               exShape ''Triangle'' ''c'' ''blue'']]"
  "redo exBoard = []" "isRestoring exBoard = False" "isReadOnly exBoard = False"
  "activeTool exBoard = ''select''" "roomId exBoard = ''room-1''" "clipboard exBoard = None"
  "length (emitted exBoard) = 3" "backgroundColor exBoard = ''transparent''"
    unfolding exBoard_def using C by (simp_all add: B exOne_fields)
qed

lemma exEraser_fields:
  "objects exEraser = map (enforceTool ''eraser'' False) (objects exBoard)"
  "roomId exEraser = ''room-1''" "activeTool exEraser = ''eraser''"
  "emitted exEraser = emitted exBoard" "undo exEraser = undo exBoard"
  "redo exEraser = []" "isRestoring exEraser = False"
  by (simp_all add: exEraser_def exBoard_fields)

lemma exAdded_fields:
  "etype exAdded = ''object:added''" "eid exAdded = Some ''z''" "room exAdded = ''room-1''"
  by (simp_all add: exAdded_def)

lemma exUndone_fields:
  "objects exUndone = []" "undo exUndone = [initialJson]"
  "redo exUndone = [exSnap [exShape ''Rect'' ''a'' ''red'']]"
  "isRestoring exUndone = False" "isReadOnly exUndone = False"
  "backgroundColor exUndone = ''transparent''"
proof -
  have l: "1 < length (undo exOne)" by (simp add: exOne_fields)
  show "objects exUndone = []" "undo exUndone = [initialJson]"
    "redo exUndone = [exSnap [exShape ''Rect'' ''a'' ''red'']]"
    "isRestoring exUndone = False" "isReadOnly exUndone = False"
    "backgroundColor exUndone = ''transparent''"
    using undo_op_history [OF l]
    by (simp_all add: exUndone_def restoreTimeout_def exOne_fields initialJson_def)
qed

lemma exClearing_fields:
  "objects exClearing = []" "backgroundColor exClearing = []"
  "isRestoring exClearing = False" "undo exClearing = [initialJson]"
  "redo exClearing = [exSnap [exShape ''Rect'' ''a'' ''red'']]"
  "clearCanvas exUndone = saveHistory exClearing"
  by (simp_all add: exClearing_def canvas_clear_def exUndone_fields emit_def clearCanvas_def)

lemma exCopied_fields:
  "clipboard (copy (ActiveObject 0) exOne)
     = Some \<lparr> c_obj = clone histProps (exShape ''Rect'' ''a'' ''red''), c_members = [] \<rparr>"
  "undo (copy (ActiveObject 0) exOne) = undo exOne"
  "redo (copy (ActiveObject 0) exOne) = []"
  "objects (copy (ActiveObject 0) exOne) = objects exOne"
  "emitted (copy (ActiveObject 0) exOne) = emitted exOne"
  "isRestoring (copy (ActiveObject 0) exOne) = False"
  "roomId (copy (ActiveObject 0) exOne) = ''room-1''"
  "backgroundColor (copy (ActiveObject 0) exOne) = ''transparent''"
  by (simp_all add: copy_def exOne_fields)

lemma exViewer_fields:
  "isReadOnly exViewer" "isRestoring exViewer = False"
  "clipboard exViewer
     = Some \<lparr> c_obj = clone histProps (exShape ''Rect'' ''a'' ''red''), c_members = [] \<rparr>"
  "objects exViewer = [enforceTool ''select'' True (exShape ''Rect'' ''a'' ''red'')]"
  "roomId exViewer = ''room-1''"
  "emitted exViewer = emitted exOne" "undo exViewer = undo exOne"
  by (simp_all add: exViewer_def exCopied_fields exOne_fields)

lemma exRestoring_fields:
  "isRestoring exRestoring" "undo exRestoring = [initialJson]" "objects exRestoring = []"
  "redo exRestoring = [exSnap [exShape ''Rect'' ''a'' ''red'']]"
  "clipboard exRestoring
     = Some \<lparr> c_obj = clone histProps (exShape ''Rect'' ''a'' ''red''), c_members = [] \<rparr>"
proof -
  have l: "1 < length (undo (copy (ActiveObject 0) exOne))"
    by (simp add: exCopied_fields exOne_fields)
  show "isRestoring exRestoring" "undo exRestoring = [initialJson]" "objects exRestoring = []"
    "redo exRestoring = [exSnap [exShape ''Rect'' ''a'' ''red'']]"
    using undo_op_history [OF l]
    by (simp_all add: exRestoring_def exCopied_fields exOne_fields initialJson_def)
  show "clipboard exRestoring
     = Some \<lparr> c_obj = clone histProps (exShape ''Rect'' ''a'' ''red''), c_members = [] \<rparr>"
    by (simp add: exRestoring_def undo_op_def Let_def loadFromJSON_def exCopied_fields)
qed

lemma exMulti_fields:
  "clipboard exMulti
     = Some \<lparr> c_obj = clone histProps exWrapper,
              c_members = [clone histProps (exShape ''Rect'' ''a'' ''red''),
                           clone histProps (exShape ''Circle'' ''b'' ''green'')] \<rparr>"
  "objects exMulti = objects exBoard" "isRestoring exMulti = False"
  by (simp_all add: exMulti_def copy_def exBoard_fields)

lemma exRnd_values: "exRnd 0 = ''p''" "exRnd (Suc 0) = ''pp''" "exRnd (Suc (Suc 0)) = ''ppp''"
  by (simp_all add: exRnd_def)

lemma exCollide_rooms:
  "rooms exRoom ''room-1'' = {''a'', ''b'', ''t''}"
  "rooms exRoom ''a'' = {''a''}"
  "rooms exCollide ''room-1'' = {''a'', ''b'', ''t''}"
  "rooms exCollide ''a'' = {''a'', ''b''}"
  "rooms exCollide ''t'' = {''t''}"
  by (auto simp add: exCollide_def exRoom_def joined_def relay_join_room_def
        relay_connection_def relay_empty_def Let_def)

section \<open>The claims\<close>

text \<open>
  C1. A received \<^verbatim>\<open>object:added\<close> event leaves the client exactly as it was: the
  callback that would stamp the rebuilt object \<^verbatim>\<open>remote = true\<close> and insert it is
  handed to \<^verbatim>\<open>enlivenObjects\<close>, which never runs it. No object is inserted and none is
  stamped; \<open>undo\<close> keeps its length only because nothing is applied.
\<close>

theorem replicated_add_inserts_nothing:
  assumes "etype event = ''object:added''"
  shows "on_canvas_event event s = s
       \<and> objects (on_canvas_event event s) = objects s
       \<and> undo (on_canvas_event event s) = undo s
       \<and> length (filter remote (objects (on_canvas_event event s)))
           = length (filter remote (objects s))"
  using assms by (simp add: on_canvas_event_added_noop)

text \<open>
  Witness for C1: the editor of \<open>exOne\<close> receives the rectangle \<open>z\<close>; its canvas still
  holds the one shape \<open>a\<close>, and no remote object.
\<close>

theorem replicated_add_inserts_nothing_witness:
  "etype exAdded = ''object:added'' \<and> edata exAdded \<noteq> None
   \<and> on_canvas_event exAdded exOne = exOne
   \<and> map oid (objects (on_canvas_event exAdded exOne)) = [Some ''a'']
   \<and> filter remote (objects (on_canvas_event exAdded exOne)) = []
   \<and> length (undo (on_canvas_event exAdded exOne)) = 2"
  using replicated_add_inserts_nothing [of exAdded exOne]
  by (simp add: exAdded_fields exAdded_def exOne_fields exShape_facts)

text \<open>
  C2. Connections \<open>t\<close>, \<open>b\<close> and \<open>a\<close> are members of \<^verbatim>\<open>room-1\<close>. As long as each id room
  holds its own connection only, a \<^verbatim>\<open>canvas-event\<close> sent by \<open>a\<close> for \<^verbatim>\<open>room-1\<close> reaches
  \<open>b\<close> and \<open>t\<close> and not \<open>a\<close>. Once \<open>b\<close> has also joined the room named \<open>a\<close>, the same
  event reaches \<open>t\<close> only: \<^verbatim>\<open>socket.to\<close> leaves out every member of the room named by
  the sender's id, so the member \<open>b\<close> of \<^verbatim>\<open>room-1\<close>, who is not the sender, is skipped.
  The relay keeps its rooms in both cases.
\<close>

theorem relay_fanout_skips_id_room_members:
  "rooms exRoom ''room-1'' = {''a'', ''b'', ''t''}
   \<and> snd (relay_canvas_event ''a'' exAdded exRoom :: relay \<times> deliveries)
       = {(''b'', CanvasEventMsg exAdded), (''t'', CanvasEventMsg exAdded)}
   \<and> rooms exCollide ''room-1'' = {''a'', ''b'', ''t''}
   \<and> snd (relay_canvas_event ''a'' exAdded exCollide :: relay \<times> deliveries)
       = {(''t'', CanvasEventMsg exAdded)}
   \<and> fst (relay_canvas_event ''a'' exAdded exCollide :: relay \<times> deliveries) = exCollide"
  by (auto simp add: relay_canvas_event_def exCollide_rooms exAdded_fields)

text \<open>
  C3. On a document whose \<open>undo\<close> stack holds the initial snapshot only, \<^verbatim>\<open>undo\<close>
  changes nothing. With the history \<open>[initial, S]\<close>, \<^verbatim>\<open>undo\<close> empties the Object Model,
  restores the initial background and moves \<open>S\<close> to \<open>redo\<close>; \<^verbatim>\<open>redo\<close> then moves it back
  and loads the objects and the background of \<open>S\<close>. When \<open>S\<close> is the snapshot recorded
  of a document \<open>doc\<close>, the snapshot of the restored document is \<open>S\<close> again; the
  restored objects have no id, as the snapshot holds none. No sequence of \<^verbatim>\<open>undo\<close>,
  \<^verbatim>\<open>redo\<close> and timer steps empties a non-empty \<open>undo\<close> stack.
\<close>

theorem undo_sentinel_round_trip:
  "(undo s = [initialJson] \<longrightarrow> undo_op s = s)
   \<and> (undo s = [initialJson, S] \<longrightarrow>
        objects (undo_op s) = []
      \<and> backgroundColor (undo_op s) = ''transparent''
      \<and> toJSON histProps (undo_op s) = initialJson
      \<and> undo (undo_op s) = [initialJson]
      \<and> redo (undo_op s) = redo s @ [S]
      \<and> undo (redo_op (undo_op s)) = [initialJson, S]
      \<and> redo (redo_op (undo_op s)) = redo s
      \<and> objects (redo_op (undo_op s)) = map (\<lambda>d. addedFlags s (fromObject d)) (s_objects S)
      \<and> backgroundColor (redo_op (undo_op s)) = s_background S
      \<and> (S = toJSON histProps (doc :: client) \<longrightarrow>
            toJSON histProps (redo_op (undo_op s)) = S
          \<and> list_all (\<lambda>obj. oid obj = None) (objects (redo_op (undo_op s)))))
   \<and> (undo s \<noteq> [] \<longrightarrow> undo (history_run calls s) \<noteq> [])"
proof (intro conjI impI)
  assume "undo s = [initialJson]"
  then show "undo_op s = s" by (simp add: undo_op_def)
next
  assume n: "undo s \<noteq> []"
  then show "undo (history_run calls s) \<noteq> []" by (rule history_run_nonempty)
next
  assume u: "undo s = [initialJson, S]"
  then have l: "1 < length (undo s)" by simp
  note U = undo_op_history [OF l]
  show o1: "objects (undo_op s) = []" using U(3) u by (simp add: initialJson_def)
  show b1: "backgroundColor (undo_op s) = ''transparent''"
    using U(5) u by (simp add: initialJson_def)
  show "toJSON histProps (undo_op s) = initialJson"
    by (simp add: toJSON_def o1 b1 initialJson_def)
  show u1: "undo (undo_op s) = [initialJson]" using U(1) u by simp
  show r1: "redo (undo_op s) = redo s @ [S]" using U(2) u by simp
  from r1 have ne: "redo (undo_op s) \<noteq> []" by simp
  note R = redo_op_history [OF ne]
  show "undo (redo_op (undo_op s)) = [initialJson, S]"
    using R(1) u1 r1 by simp
  show "redo (redo_op (undo_op s)) = redo s" using R(2) r1 by simp
  have f: "addedFlags (undo_op s) = addedFlags s" by (rule addedFlags_cong) simp_all
  show o2: "objects (redo_op (undo_op s)) = map (\<lambda>d. addedFlags s (fromObject d)) (s_objects S)"
    using R(3) r1 by (simp add: f)
  show b2: "backgroundColor (redo_op (undo_op s)) = s_background S"
    using R(5) r1 by simp
  assume d: "S = toJSON histProps doc"
  show "toJSON histProps (redo_op (undo_op s)) = S"
    by (simp add: toJSON_def o2 b2 d comp_def restore_object)
  show "list_all (\<lambda>obj. oid obj = None) (objects (redo_op (undo_op s)))"
    by (simp add: o2 d toJSON_def list_all_iff objToJSON_def toObject_def fromObject_def)
qed

text \<open>
  Witness for C3: a fresh editor, and the editor of \<open>exOne\<close>, who has recorded exactly
  one mutation; undo, redo and a longer run of calls behave as stated.
\<close>

theorem undo_sentinel_round_trip_witness:
  "undo (initClient ''select'' False ''room-1'' 800 600) = [initialJson]
   \<and> undo_op (initClient ''select'' False ''room-1'' 800 600)
       = initClient ''select'' False ''room-1'' 800 600
   \<and> undo exOne = [initialJson, exSnap [exShape ''Rect'' ''a'' ''red'']]
   \<and> exSnap [exShape ''Rect'' ''a'' ''red''] = toJSON histProps exOne
   \<and> objects (undo_op exOne) = []
   \<and> undo (undo_op exOne) = [initialJson]
   \<and> redo (undo_op exOne) = [exSnap [exShape ''Rect'' ''a'' ''red'']]
   \<and> undo (redo_op (undo_op exOne)) = undo exOne
   \<and> redo (redo_op (undo_op exOne)) = []
   \<and> toJSON histProps (redo_op (undo_op exOne)) = toJSON histProps exOne
   \<and> map oid (objects (redo_op (undo_op exOne))) = [None]
   \<and> undo (history_run [Undo, Undo, Redo, Timeout, Undo, Undo] exOne) \<noteq> []"
proof -
  have d: "exSnap [exShape ''Rect'' ''a'' ''red''] = toJSON histProps exOne"
    by (simp add: exSnap_def toJSON_def exOne_fields)
  show ?thesis
    using undo_sentinel_round_trip
            [of "initClient ''select'' False ''room-1'' 800 600"
                "exSnap [exShape ''Rect'' ''a'' ''red'']" exOne "[]"]
          undo_sentinel_round_trip
            [of exOne "exSnap [exShape ''Rect'' ''a'' ''red'']" exOne
                "[Undo, Undo, Redo, Timeout, Undo, Undo]"]
    by (simp add: d [symmetric] exOne_fields initClient_fields exSnap_def objToJSON_def
          toObject_def fromObject_def)
qed

text \<open>
  Counterexample to C4 as stated: after the editor has undone its only shape, the canvas is
  empty again and its snapshot is the top of \<open>undo\<close>; a call of \<^verbatim>\<open>saveHistory\<close>
  returns before it touches \<open>redo\<close>, which keeps its entry. So does a call made while
  the restore is still in progress, as \<^verbatim>\<open>paste\<close> makes it in \<open>exRestoring\<close>.
\<close>

theorem saveHistory_keeps_redo_when_identical:
  "\<not> isRestoring exUndone
   \<and> undo exUndone \<noteq> []
   \<and> last (undo exUndone) = toJSON histProps exUndone
   \<and> redo exUndone = [exSnap [exShape ''Rect'' ''a'' ''red'']]
   \<and> redo (saveHistory exUndone) = [exSnap [exShape ''Rect'' ''a'' ''red'']]
   \<and> isRestoring exRestoring
   \<and> redo (saveHistory exRestoring) = [exSnap [exShape ''Rect'' ''a'' ''red'']]"
  by (simp add: exUndone_fields exRestoring_fields saveHistory_def initialJson_def toJSON_def
        Let_def)

text \<open>
  C4, amended. \<^verbatim>\<open>saveHistory\<close> appends the snapshot and clears \<open>redo\<close> exactly when no
  restore is in progress and the snapshot differs from the top of \<open>undo\<close>; otherwise it
  changes nothing, \<open>redo\<close> included. A second call with no change in between appends
  nothing, so two calls append at most one entry.
\<close>

theorem saveHistory_contract:
  "(\<not> isRestoring s \<and> (undo s = [] \<or> last (undo s) \<noteq> toJSON histProps s) \<longrightarrow>
        undo (saveHistory s) = undo s @ [toJSON histProps s]
      \<and> redo (saveHistory s) = [])
   \<and> (isRestoring s \<or> (undo s \<noteq> [] \<and> last (undo s) = toJSON histProps s) \<longrightarrow>
        saveHistory s = s)
   \<and> saveHistory (saveHistory s) = saveHistory s
   \<and> length (undo (saveHistory (saveHistory s))) \<le> length (undo s) + 1"
  by (auto simp add: saveHistory_def Let_def toJSON_def)

text \<open>
  Witness for C4: in \<open>exClearing\<close> the cleared canvas has lost its background, so its
  snapshot differs from the top of \<open>undo\<close>, and the call appends and clears \<open>redo\<close>; in
  \<open>exUndone\<close> the snapshot is the top, in \<open>exRestoring\<close> a restore is in progress, and a
  call changes nothing.
\<close>

theorem saveHistory_contract_witness:
  "\<not> isRestoring exClearing
   \<and> last (undo exClearing) \<noteq> toJSON histProps exClearing
   \<and> redo exClearing \<noteq> []
   \<and> undo (saveHistory exClearing) = [initialJson, \<lparr> s_background = [], s_objects = [] \<rparr>]
   \<and> redo (saveHistory exClearing) = []
   \<and> undo exUndone \<noteq> [] \<and> last (undo exUndone) = toJSON histProps exUndone
   \<and> saveHistory exUndone = exUndone
   \<and> isRestoring exRestoring \<and> saveHistory exRestoring = exRestoring"
  using saveHistory_contract [of exClearing] saveHistory_contract [of exUndone]
    saveHistory_contract [of exRestoring]
  by (simp add: exClearing_fields exUndone_fields exRestoring_fields initialJson_def toJSON_def)

text \<open>
  C5. The editor of \<open>exOne\<close> answers a \<^verbatim>\<open>request-sync\<close> of \<open>a\<close> with one \<^verbatim>\<open>sync-state\<close>
  for target \<open>a\<close>, the viewer of \<open>exViewer\<close> answers nothing. As long as the room
  named \<open>a\<close> holds \<open>a\<close> only, the relay forwards the answer as \<^verbatim>\<open>load-state\<close> to \<open>a\<close>
  alone. Once \<open>b\<close> has joined the room named \<open>a\<close>, the same answer is delivered to \<open>a\<close>
  and to \<open>b\<close>: \<^verbatim>\<open>io.to(targetId)\<close> addresses a room, and \<^verbatim>\<open>join-room\<close> lets any
  connection into the room named by another connection's id.
\<close>

theorem sync_state_reaches_id_room_members:
  "emitted (on_request_sync ''a'' exOne)
     = emitted exOne @ [SyncState ''room-1'' (toJSON [] exOne) ''a'']
   \<and> emitted (on_request_sync ''a'' exViewer) = emitted exViewer
   \<and> snd (relay_sync_state ''t''
            \<lparr> sync_room = ''room-1'', state = toJSON [] exOne, targetId = ''a'' \<rparr> exRoom
          :: relay \<times> deliveries)
       = {(''a'', LoadState (toJSON [] exOne))}
   \<and> snd (relay_sync_state ''t''
            \<lparr> sync_room = ''room-1'', state = toJSON [] exOne, targetId = ''a'' \<rparr> exCollide
          :: relay \<times> deliveries)
       = {(''a'', LoadState (toJSON [] exOne)), (''b'', LoadState (toJSON [] exOne))}"
  by (auto simp add: on_request_sync_def relay_sync_state_def exCollide_rooms exOne_fields
        exViewer_fields)

text \<open>
  C6. Three locally drawn shapes \<open>a\<close>, \<open>b\<close>, \<open>c\<close> lie on top of each other and the
  eraser is the active tool. A sample of \<^verbatim>\<open>handleScrubberMove\<close> with the button held
  ends in the \<^verbatim>\<open>TypeError\<close> of the call of \<^verbatim>\<open>getPointer\<close>, which the canvas does not
  have: it sets the dragging flag, removes nothing and emits nothing. The \<^verbatim>\<open>mouse:down\<close>
  handler, which reads \<^verbatim>\<open>opt.scenePoint\<close>, removes the topmost shape \<open>c\<close> only, whether
  Fabric reports the target or the handler finds it, and emits \<^verbatim>\<open>object:removed\<close> for
  \<open>c\<close> twice: once itself and once through the \<^verbatim>\<open>object:removed\<close> listener.
\<close>

theorem erase_sample_throws:
  "handleScrubberMove 1 None (\<lambda>_ _. True) exEraser
     = Inl (TypeError, exEraser\<lparr> isEraserDragging := True \<rparr>)
   \<and> map oid (objects (exEraser\<lparr> isEraserDragging := True \<rparr>))
       = [Some ''a'', Some ''b'', Some ''c'']
   \<and> emitted (exEraser\<lparr> isEraserDragging := True \<rparr>) = emitted exEraser
   \<and> (case mouse_down (Some 2) (Some (400, 300)) None (\<lambda>_ _. True) exEraser of
        Inl _ \<Rightarrow> False
      | Inr st \<Rightarrow>
          map oid (objects st) = [Some ''a'', Some ''b'']
        \<and> emitted st = emitted exEraser @
            [removedEvent ''room-1'' (Some ''c''), removedEvent ''room-1'' (Some ''c'')])
   \<and> mouse_down None (Some (400, 300)) None (\<lambda>_ _. True) exEraser
       = mouse_down (Some 2) (Some (400, 300)) None (\<lambda>_ _. True) exEraser"
proof -
  let ?d = "exEraser\<lparr> isEraserDragging := True \<rparr>"
  let ?m = "saveHistory (canvas_remove_at 2
              (emit (removedEvent (roomId exEraser) (oid (objects exEraser ! 2))) ?d))"
  have t: "activeTool exEraser = ''eraser''" by (simp add: exEraser_fields)
  have b: "(1::nat) = 1 \<or> ((1::nat) \<noteq> 0 \<and> isEraserDragging exEraser)" by simp
  have o: "objects exEraser
           = map (enforceTool ''eraser'' False)
               [exShape ''Rect'' ''a'' ''red'', exShape ''Circle'' ''b'' ''green'',
                exShape ''Triangle'' ''c'' ''blue'']"
    by (simp add: exEraser_fields exBoard_fields)
  have i: "2 < length (objects exEraser)" "eligible (objects exEraser ! 2)"
    "oid (objects exEraser ! 2) = Some ''c''" "\<not> remote (objects exEraser ! 2)"
    by (simp_all add: o exShape_facts)
  have h: "topmost_hit (\<lambda>_. True) (rev (objects exEraser)) = Some 2" by (simp add: o)
  have c1: "handleScrubberMove 1 None (\<lambda>_ _. True) exEraser = Inl (TypeError, ?d)"
    by (rule handleScrubberMove_throws [OF t b])
  have c2: "map oid (objects ?d) = [Some ''a'', Some ''b'', Some ''c'']"
    by (simp add: o exShape_facts)
  have c3: "emitted ?d = emitted exEraser" by simp
  have m1: "mouse_down (Some 2) (Some (400, 300)) None (\<lambda>_ _. True) exEraser = Inr ?m"
    by (rule mouse_down_erases(1) [OF t i(1,2)]) simp
  have m2: "mouse_down None (Some (400, 300)) None (\<lambda>_ _. True) exEraser = Inr ?m"
    by (rule mouse_down_erases(1) [OF t i(1,2)]) (simp add: h)
  have m3: "map oid (objects ?m) = [Some ''a'', Some ''b'']"
    by (simp add: canvas_remove_at_objects o exShape_facts)
  have "emitted ?m
           = emitted exEraser @ removedEvent (roomId exEraser) (oid (objects exEraser ! 2))
               # (if remote (objects exEraser ! 2) then []
                  else [removedEvent (roomId exEraser) (oid (objects exEraser ! 2))])"
    by (rule mouse_down_erases(3) [OF t i(1,2), where target = "Some 2"]) simp
  then have m4: "emitted ?m = emitted exEraser @
            [removedEvent ''room-1'' (Some ''c''), removedEvent ''room-1'' (Some ''c'')]"
    by (simp add: i exEraser_fields(2))
  show ?thesis
    unfolding c1 m1 m2 by (simp only: c2 c3 m3 m4 sum.case simp_thms)
qed

text \<open>
  C7. With the eraser as the active tool, \<^verbatim>\<open>undo\<close> on the board of three local
  shapes emits an \<^verbatim>\<open>object:removed\<close> event for each of them, although it restores the
  two lower shapes locally (without their ids, which the snapshot does not hold): the
  restore clears the canvas through \<^verbatim>\<open>remove\<close>, and the \<^verbatim>\<open>object:removed\<close> listener
  broadcasts every removal while the eraser is active.
\<close>

theorem undo_with_eraser_broadcasts:
  "activeTool exEraser = ''eraser''
   \<and> emitted (undo_op exEraser)
       = emitted exEraser @
         [removedEvent ''room-1'' (Some ''a''), removedEvent ''room-1'' (Some ''b''),
          removedEvent ''room-1'' (Some ''c'')]
   \<and> map oid (objects (undo_op exEraser)) = [None, None]
   \<and> map otype (objects (undo_op exEraser)) = [''Rect'', ''Circle'']"
proof -
  have l: "1 < length (undo exEraser)" by (simp add: exEraser_fields exBoard_fields)
  show ?thesis
    using undo_op_emitted [OF l] undo_op_history(3) [OF l]
    by (simp add: exEraser_fields exBoard_fields exShape_facts exSnap_def comp_def
          restored_oid objToJSON_def toObject_def fromObject_def)
qed

text \<open>
  C8. Applying the same \<^verbatim>\<open>object:added\<close> event twice leaves the client as applying it
  once does, so the same objects are on the canvas and as many of them carry the
  event's id. (Neither apply inserts anything: the handler's callback is never run.)
\<close>

theorem replicated_add_idempotent:
  assumes "etype event = ''object:added''"
  shows "on_canvas_event event (on_canvas_event event s) = on_canvas_event event s
       \<and> objects (on_canvas_event event (on_canvas_event event s))
           = objects (on_canvas_event event s)
       \<and> length (filter (\<lambda>obj. oid obj = eid event)
                   (objects (on_canvas_event event (on_canvas_event event s))))
           = length (filter (\<lambda>obj. oid obj = eid event) (objects (on_canvas_event event s)))"
  using assms by (simp add: on_canvas_event_added_noop)

text \<open>
  Witness for C8: the editor of \<open>exOne\<close> receives the rectangle \<open>z\<close> twice, and an
  add for the id \<open>a\<close> of its own shape twice; its canvas holds the shape \<open>a\<close> once.
\<close>

theorem replicated_add_idempotent_witness:
  "etype exAdded = ''object:added''
   \<and> etype (exAdded\<lparr> eid := Some ''a'' \<rparr>) = ''object:added''
   \<and> map oid (objects (on_canvas_event exAdded (on_canvas_event exAdded exOne)))
       = map oid (objects (on_canvas_event exAdded exOne))
   \<and> map oid (objects (on_canvas_event (exAdded\<lparr> eid := Some ''a'' \<rparr>)
                         (on_canvas_event (exAdded\<lparr> eid := Some ''a'' \<rparr>) exOne)))
       = [Some ''a'']
   \<and> length (filter (\<lambda>obj. oid obj = Some ''a'')
               (objects (on_canvas_event (exAdded\<lparr> eid := Some ''a'' \<rparr>)
                           (on_canvas_event (exAdded\<lparr> eid := Some ''a'' \<rparr>) exOne)))) = 1"
  using replicated_add_idempotent [of exAdded exOne]
    replicated_add_idempotent [of "exAdded\<lparr> eid := Some ''a'' \<rparr>" exOne]
  by (simp add: exAdded_fields exOne_fields exShape_facts on_canvas_event_def
        enlivenObjects_def)

text \<open>
  C9. For a read-only client each of \<^verbatim>\<open>addShape\<close>, \<^verbatim>\<open>addText\<close>, \<^verbatim>\<open>deleteSelected\<close>,
  \<^verbatim>\<open>cut\<close>, \<^verbatim>\<open>duplicate\<close>, \<^verbatim>\<open>uploadImage\<close>, \<^verbatim>\<open>clearCanvas\<close> and \<^verbatim>\<open>resetWhiteboard\<close>
  returns the state it was given: objects, history, clipboard and emitted messages
  are unchanged.
\<close>

theorem read_only_guard:
  assumes "isReadOnly s"
  shows "addShape type shapeId style s = s
       \<and> addText textId textStyle s = s
       \<and> deleteSelected act s = s
       \<and> cut act s = s
       \<and> duplicate act rnd s = s
       \<and> uploadImage f decoded newId s = s
       \<and> clearCanvas s = s
       \<and> resetWhiteboard s = s"
  using assms
  by (simp add: addShape_def addText_def deleteSelected_def cut_def duplicate_def
        uploadImage_def clearCanvas_def resetWhiteboard_def)

text \<open>
  Witness for C9: the viewer of \<open>exViewer\<close>, whose canvas holds a shape and whose
  clipboard holds its copy, with that shape selected.
\<close>

theorem read_only_guard_witness:
  "isReadOnly exViewer
   \<and> addShape ''square'' ''q'' ''red'' exViewer = exViewer
   \<and> addText ''t'' ''black'' exViewer = exViewer
   \<and> deleteSelected (ActiveObject 0) exViewer = exViewer
   \<and> cut (ActiveObject 0) exViewer = exViewer
   \<and> duplicate (ActiveObject 0) exRnd exViewer = exViewer
   \<and> uploadImage \<lparr> ftype = ''image/png'', fname = ''x.png'' \<rparr>
        (Some (exShape ''image'' [] ''png'')) ''u'' exViewer = exViewer
   \<and> clearCanvas exViewer = exViewer
   \<and> resetWhiteboard exViewer = exViewer
   \<and> objects exViewer \<noteq> [] \<and> clipboard exViewer \<noteq> None"
  using read_only_guard [of exViewer "''square''" "''q''" "''red''" "''t''" "''black''"
          "ActiveObject 0" exRnd "\<lparr> ftype = ''image/png'', fname = ''x.png'' \<rparr>"
          "Some (exShape ''image'' [] ''png'')" "''u''"]
  by (simp add: exViewer_fields exViewer_def exCopied_fields exOne_fields)

text \<open>
  Counterexample to C10 as stated: the editor has copied its shape and pressed undo; before
  the restore timer fires it pastes. The clone is inserted, but \<^verbatim>\<open>saveHistory\<close> returns
  at once and no snapshot is recorded: \<open>undo\<close> still holds the initial snapshot only.
\<close>

theorem paste_while_restoring_records_nothing:
  "clipboard exRestoring \<noteq> None
   \<and> undo (paste exRnd exRestoring) = undo exRestoring
   \<and> undo (paste exRnd exRestoring) = [initialJson]
   \<and> length (objects (paste exRnd exRestoring)) = length (objects exRestoring) + 1"
proof -
  let ?cl = "\<lparr> c_obj = clone histProps (exShape ''Rect'' ''a'' ''red''), c_members = [] \<rparr>"
  have p: "paste exRnd exRestoring = insertClone 20 exRnd (cloneClip ?cl) exRestoring"
    by (simp add: paste_def exRestoring_fields)
  show ?thesis
    using insertClone_restoring [OF exRestoring_fields(1), of 20 exRnd "cloneClip ?cl"]
      insertClone_single(1) [of 20 exRnd "cloneClip ?cl" exRestoring]
    by (simp add: p exRestoring_fields)
qed

text \<open>
  C10, amended. For every client, read-only or not, \<^verbatim>\<open>paste\<close> with a non-empty
  clipboard inserts one clone of the clipboard's object, moved by (20, 20) and under
  a fresh id, into the Object Model and emits one \<^verbatim>\<open>object:added\<close> with that id and
  the clone's serialisation. Unless a restore is in progress, the top of \<open>undo\<close> is
  afterwards the snapshot of the new document; during a restore the history is left
  as it was. Nothing depends on a test of \<^verbatim>\<open>isReadOnly\<close>.
\<close>

theorem paste_ignores_read_only:
  assumes "clipboard s = Some cl"
  shows "(let pasted = addedFlags s ((clone histProps (c_obj cl))\<lparr>
                         oleft := oleft (c_obj cl) + 20, otop := otop (c_obj cl) + 20,
                         evented := True, selectable := True, oid := Some (rnd 0) \<rparr>)
          in objects (paste rnd s) = objects s @ [pasted]
           \<and> oid pasted = Some (rnd 0)
           \<and> oleft pasted = oleft (c_obj cl) + 20
           \<and> otop pasted = otop (c_obj cl) + 20
           \<and> emitted (paste rnd s)
               = emitted s @ [addedEvent (roomId s) (Some (rnd 0)) (objToJSON histProps pasted)])
       \<and> (\<not> isRestoring s \<longrightarrow>
            undo (paste rnd s) \<noteq> []
          \<and> last (undo (paste rnd s)) = toJSON histProps (paste rnd s))
       \<and> (isRestoring s \<longrightarrow> undo (paste rnd s) = undo s \<and> redo (paste rnd s) = redo s)"
proof -
  have p: "paste rnd s = insertClone 20 rnd (cloneClip cl) s"
    using assms by (simp add: paste_def)
  have c: "c_obj (cloneClip cl) = clone histProps (c_obj cl)"
    by (simp add: cloneClip_def)
  show ?thesis
  proof (intro conjI impI)
    show "let pasted = addedFlags s ((clone histProps (c_obj cl))\<lparr>
                         oleft := oleft (c_obj cl) + 20, otop := otop (c_obj cl) + 20,
                         evented := True, selectable := True, oid := Some (rnd 0) \<rparr>)
          in objects (paste rnd s) = objects s @ [pasted]
           \<and> oid pasted = Some (rnd 0)
           \<and> oleft pasted = oleft (c_obj cl) + 20
           \<and> otop pasted = otop (c_obj cl) + 20
           \<and> emitted (paste rnd s)
               = emitted s @ [addedEvent (roomId s) (Some (rnd 0)) (objToJSON histProps pasted)]"
      using insertClone_single [of 20 rnd "cloneClip cl" s] by (simp add: p c Let_def)
  next
    assume "\<not> isRestoring s"
    then show "undo (paste rnd s) \<noteq> []"
      and "last (undo (paste rnd s)) = toJSON histProps (paste rnd s)"
      using insertClone_history [of s 20 rnd "cloneClip cl"] by (simp_all add: p)
  next
    assume "isRestoring s"
    then show "undo (paste rnd s) = undo s" and "redo (paste rnd s) = redo s"
      using insertClone_restoring [of s 20 rnd "cloneClip cl"] by (simp_all add: p)
  qed
qed

text \<open>
  Witness for C10: the read-only viewer of \<open>exViewer\<close> pastes its copied shape (a
  second object with the fresh id \<open>p\<close>, 20 further right and down, is inserted,
  broadcast and recorded); the editor of \<open>exMulti\<close> pastes a selection of two shapes
  (one object with the fresh id \<open>p\<close> is inserted); the editor of \<open>exRestoring\<close> pastes
  during a restore (the history is untouched).
\<close>

theorem paste_ignores_read_only_witness:
  "isReadOnly exViewer \<and> \<not> isRestoring exViewer
   \<and> clipboard exViewer
       = Some \<lparr> c_obj = clone histProps (exShape ''Rect'' ''a'' ''red''), c_members = [] \<rparr>
   \<and> map oid (objects (paste exRnd exViewer)) = [Some ''a'', Some ''p'']
   \<and> map oleft (objects (paste exRnd exViewer)) = [400, 420]
   \<and> map otop (objects (paste exRnd exViewer)) = [300, 320]
   \<and> length (emitted (paste exRnd exViewer)) = length (emitted exViewer) + 1
   \<and> last (undo (paste exRnd exViewer)) = toJSON histProps (paste exRnd exViewer)
   \<and> length (s_objects (last (undo (paste exRnd exViewer)))) = 2
   \<and> clipboard exMulti \<noteq> None \<and> \<not> isRestoring exMulti
   \<and> map oid (objects (paste exRnd exMulti))
       = [Some ''a'', Some ''b'', Some ''c'', Some ''p'']
   \<and> isRestoring exRestoring
   \<and> undo (paste exRnd exRestoring) = undo exRestoring
   \<and> redo (paste exRnd exRestoring) = redo exRestoring"
  using paste_ignores_read_only
          [of exViewer
              "\<lparr> c_obj = clone histProps (exShape ''Rect'' ''a'' ''red''), c_members = [] \<rparr>"
              exRnd]
        paste_ignores_read_only
          [of exMulti
              "\<lparr> c_obj = clone histProps exWrapper,
                 c_members = [clone histProps (exShape ''Rect'' ''a'' ''red''),
                              clone histProps (exShape ''Circle'' ''b'' ''green'')] \<rparr>"
              exRnd]
        paste_ignores_read_only
          [of exRestoring
              "\<lparr> c_obj = clone histProps (exShape ''Rect'' ''a'' ''red''), c_members = [] \<rparr>"
              exRnd]
  by (simp add: exViewer_fields exMulti_fields exRestoring_fields exBoard_fields
        exShape_facts exRnd_values Let_def toJSON_def)

end
